theory Spec2Isabelle
  imports Main
begin

section \<open>The persisted signal store\<close>

text \<open>
  The stop hook (\<^verbatim>\<open>src/unnamed/part_004\<close>) reads and writes JSON files under \<^verbatim>\<open>.deep/\<close>.
  A file is either absent (\<^verbatim>\<open>fs.existsSync\<close> is false), present but unreadable or
  unparseable (\<^verbatim>\<open>fs.readFileSync\<close> or \<^verbatim>\<open>JSON.parse\<close> throws), or present with a
  parsed JSON object. Timestamps are milliseconds since the epoch; an optional
  timestamp that is \<open>None\<close> stands for a value whose \<^verbatim>\<open>new Date(..).getTime()\<close> is NaN.
  An optional number that is \<open>None\<close> stands for an absent field, or for a value that
  is falsy and not a number (\<^verbatim>\<open>null\<close>, \<^verbatim>\<open>false\<close>, the empty string): the code tells
  none of them apart, and \<^verbatim>\<open>JSON.stringify\<close> writes a non-finite number as \<^verbatim>\<open>null\<close>.
  A number that is present is an integer that is an IEEE double. The fields have the
  types of the data model; a task's identifier is called \<open>task_id\<close>.
\<close>

datatype 'a stored = Missing | Malformed | Good 'a

record session_state =
  phase :: string
  iteration :: "int option"
  maxIterations :: "int option"
  complete :: bool
  lastActivity :: "int option"

record category_result =
  ran :: bool
  passed :: bool

record test_results =
  r_tests :: "category_result option"
  r_types :: "category_result option"
  r_lint :: "category_result option"
  r_build :: "category_result option"
  allPassed :: bool

record git_results =
  isGitRepo :: bool
  hasGhCli :: bool
  pr_created :: bool
  ci_checked :: bool
  ci_passed :: bool
  merge_merged :: bool
  requirePR :: "bool option"
  requireCIPass :: "bool option"
  requireMerge :: "bool option"

record task =
  task_id :: string
  content :: string
  status :: string
  createdAt :: "int option"

record tasks_data =
  staleThresholdHours :: "int option"
  tasks :: "task list"

record failure_entry =
  fe_error :: string
  fe_timestamp :: int

record task_failures =
  f_count :: int
  f_errors :: "failure_entry list"

record escalation =
  taskId :: string
  failures :: int
  esc_errors :: "failure_entry list"
  esc_createdAt :: int

record rlm_context =
  sub_calls :: "int option"
  cost_estimate :: "string option"

record cost_session =
  s_timestamp :: int
  s_sub_calls :: int
  s_cost_estimate :: string

record rlm_costs =
  total_sub_calls :: "int option"
  last_updated :: "int option"
  sessions :: "cost_session list option"

record validation_error =
  ve_file :: "string option"
  ve_message :: string
  ve_line :: "int option"
  ve_timestamp :: "int option"

record validation_state =
  v_errors :: "validation_error list"
  filesValidated :: int

record lock =
  agentId :: string
  acquiredAt :: "int option"

text \<open>
  The world one run of the hook sees: the clock (\<^verbatim>\<open>Date.now()\<close>, taken as one instant
  per run), the process id, the three presence-only markers, and the content of every
  file. \<open>state_mtime\<close> is \<^verbatim>\<open>fs.statSync(STATE_FILE).mtimeMs\<close>, meaningful when the state
  file exists. The failure log is the list of the entries of the parsed object
  (task id, record). Writes and deletions are taken to succeed.
\<close>

record world =
  now :: int
  pid :: string
  force_exit_file :: bool
  force_complete_file :: bool
  ralph_handoff_file :: bool
  escalation_file :: "escalation stored"
  state_file :: "session_state stored"
  state_mtime :: int
  test_results_file :: "test_results stored"
  git_results_file :: "git_results stored"
  persistent_tasks_file :: "tasks_data stored"
  failure_file :: "(string \<times> task_failures) list stored"
  rlm_context_file :: "rlm_context stored"
  rlm_costs_file :: "rlm_costs stored"
  validation_state_file :: "validation_state stored"
  lock_file :: "lock stored"

section \<open>What a run prints and how it exits\<close>

text \<open>
  \<open>blocked\<close> lists the lines the hook writes to stderr before \<^verbatim>\<open>process.exit(2)\<close>;
  \<open>message\<close> lists the texts it writes to stdout, each constructor standing for one
  template with the values interpolated into it. The summaries some texts embed (the
  task name, the RLM status and the validation summary in the phase prompt, the reason
  in the force-complete notice, the grouping by file of the validation errors) are
  left out of the constructors. \<open>MsgInherited p\<close> is what \<^verbatim>\<open>console.log\<close> prints for the
  member of \<^verbatim>\<open>Object.prototype\<close> named \<open>p\<close>.
\<close>

datatype blocked =
    EscalationPending
  | CostLimitReached
  | IterationLimitReached
  | DeepLoopPhase string
  | ValidationErrorsPending
  | TestVerificationFailed
  | GitVerificationFailed
  | EscalationRequired
  | TasksRemaining nat

datatype exit = Exit0 | Exit2 blocked

datatype message =
    MsgForceExit
  | MsgForceComplete
  | MsgRalphHandoff
  | MsgEscalationPending string
  | MsgCostLimit int
  | MsgCostWarning int
  | MsgStale
  | MsgIterationLimit int int
  | MsgPhasePrompt string "int option" "int option"
  | MsgInherited string
  | MsgValidationErrors "validation_error list"
  | MsgTestsNotVerified "string list" "string list"
  | MsgGitIncomplete "string list" "string list"
  | MsgEscalationRequired string int "string list"
  | MsgTasksRemaining nat string string
  | MsgExitAllowed

record result =
  r_exit :: exit
  r_stdout :: "message list"
  r_world :: world

fun exit_code :: "exit \<Rightarrow> nat" where
  "exit_code Exit0 = 0"
| "exit_code (Exit2 b) = 2"

datatype 'a step = Exit result | Continue 'a

section \<open>Configuration\<close>

definition STALE_THRESHOLD_MS :: int where
  "STALE_THRESHOLD_MS = 8 * 60 * 60 * 1000"

definition DEFAULT_TASK_STALE_HOURS :: int where
  "DEFAULT_TASK_STALE_HOURS = 24"

definition MAX_CONSECUTIVE_FAILURES :: int where
  "MAX_CONSECUTIVE_FAILURES = 3"

definition LOCK_TIMEOUT_MS :: int where
  "LOCK_TIMEOUT_MS = 5 * 60 * 1000"

definition RLM_SUB_CALL_WARNING :: int where
  "RLM_SUB_CALL_WARNING = 30"

definition RLM_SUB_CALL_LIMIT :: int where
  "RLM_SUB_CALL_LIMIT = 50"

text \<open>JavaScript's \<^verbatim>\<open>x || d\<close> on an optional number: absent and 0 are falsy.\<close>

definition js_or :: "int option \<Rightarrow> int \<Rightarrow> int" where
  "js_or x d = (case x of None \<Rightarrow> d | Some v \<Rightarrow> if v = 0 then d else v)"

text \<open>\<^verbatim>\<open>xs.slice(-n)\<close>: the last \<open>n\<close> elements, all of them when there are fewer.\<close>

definition slice_last :: "nat \<Rightarrow> 'a list \<Rightarrow> 'a list" where
  "slice_last n xs = drop (length xs - n) xs"

text \<open>
  The names every object literal inherits from \<^verbatim>\<open>Object.prototype\<close>: looking one of them
  up in an object that has no such key of its own yields a function (the prototype
  itself for \<^verbatim>\<open>__proto__\<close>), which is truthy and has no \<^verbatim>\<open>push\<close>.
\<close>

definition object_prototype_members :: "string list" where
  "object_prototype_members =
     [''constructor'', ''__defineGetter__'', ''__defineSetter__'', ''hasOwnProperty'',
      ''__lookupGetter__'', ''__lookupSetter__'', ''isPrototypeOf'', ''propertyIsEnumerable'',
      ''toString'', ''valueOf'', ''__proto__'', ''toLocaleString'']"

text \<open>
  JavaScript numbers are IEEE doubles. \<open>to_double n\<close> is the double nearest to the integer
  \<open>n\<close> (ties to the even significand of 53 bits), which is what \<^verbatim>\<open>a + b\<close> yields for the
  exact sum \<open>n\<close>; integers up to \<open>2 ^ 53\<close> in size are exact. \<open>None\<close> is an infinite
  result, which is written to a file as \<^verbatim>\<open>null\<close>.
\<close>

function bit_length :: "int \<Rightarrow> nat" where
  "bit_length n = (if n \<le> 0 then 0 else Suc (bit_length (n div 2)))"
  by pat_completeness auto
termination
  by (relation "measure nat") auto

declare bit_length.simps [simp del]

definition to_double :: "int \<Rightarrow> int option" where
  "to_double n =
     (let a = \<bar>n\<bar> in
      if a \<le> 2 ^ 53 then Some n
      else
        (let sh = bit_length a - 53;
             q = a div 2 ^ sh;
             r = a mod 2 ^ sh;
             half = 2 ^ (sh - 1);
             q' = (if r > half \<or> (r = half \<and> odd q) then q + 1 else q);
             m = q' * 2 ^ sh
         in if m \<ge> 2 ^ 1024 then None
            else Some (if n < 0 then - m else m)))"

section \<open>Edge case 1: iteration limit\<close>

definition checkIterationLimit :: "session_state option \<Rightarrow> message option" where
  "checkIterationLimit st =
     (case st of
        None \<Rightarrow> None
      | Some s \<Rightarrow>
          (case maxIterations s of
             None \<Rightarrow> None
           | Some mx \<Rightarrow>
               if mx = 0 then None
               else if js_or (iteration s) 0 \<ge> mx
                 then Some (MsgIterationLimit (js_or (iteration s) 0) mx)
                 else None))"

section \<open>Edge case 2: staleness\<close>

definition isStateStale :: "world \<Rightarrow> bool" where
  "isStateStale w =
     (case state_file w of
        Missing \<Rightarrow> True
      | _ \<Rightarrow> now w - state_mtime w > STALE_THRESHOLD_MS)"

section \<open>Edge case 3: test and git verification\<close>

record verification =
  valid :: bool
  skip :: bool
  missing :: "string list"
  failed :: "string list"

definition check_category ::
  "string \<Rightarrow> category_result option \<Rightarrow> string list \<times> string list \<Rightarrow> string list \<times> string list" where
  "check_category cat r acc =
     (case r of
        None \<Rightarrow> (fst acc @ [cat @ '': no results''], snd acc)
      | Some c \<Rightarrow>
          if \<not> ran c then (fst acc @ [cat @ '': not run''], snd acc)
          else if \<not> passed c then (fst acc, snd acc @ [cat @ '': failed''])
          else acc)"

definition verifyTestResults :: "world \<Rightarrow> verification" where
  "verifyTestResults w =
     (case test_results_file w of
        Missing \<Rightarrow>
          \<lparr>valid = False, skip = False, missing = [''test-results.json not found''], failed = []\<rparr>
      | Malformed \<Rightarrow>
          \<lparr>valid = False, skip = False, missing = [''Cannot read test results''], failed = []\<rparr>
      | Good results \<Rightarrow>
          (let acc = check_category ''build'' (r_build results)
                      (check_category ''lint'' (r_lint results)
                        (check_category ''types'' (r_types results)
                          (check_category ''tests'' (r_tests results) ([], []))));
               acc' = (if \<not> allPassed results \<and> fst acc = [] \<and> snd acc = []
                       then (fst acc, snd acc @ [''allPassed is false'']) else acc)
           in \<lparr>valid = (fst acc' = [] \<and> snd acc' = []), skip = False,
               missing = fst acc', failed = snd acc'\<rparr>))"

definition verifyGitResults :: "world \<Rightarrow> verification" where
  "verifyGitResults w =
     (case git_results_file w of
        Missing \<Rightarrow> \<lparr>valid = True, skip = True, missing = [], failed = []\<rparr>
      | Malformed \<Rightarrow> \<lparr>valid = True, skip = True, missing = [], failed = []\<rparr>
      | Good results \<Rightarrow>
          if \<not> isGitRepo results then \<lparr>valid = True, skip = True, missing = [], failed = []\<rparr>
          else if \<not> hasGhCli results then \<lparr>valid = True, skip = True, missing = [], failed = []\<rparr>
          else
            (let m1 = (if requirePR results \<noteq> Some False \<and> \<not> pr_created results
                       then [''PR not created''] else []);
                 m2 = (if requireCIPass results \<noteq> Some False \<and> \<not> ci_checked results
                       then m1 @ [''CI not checked''] else m1);
                 f = (if requireCIPass results \<noteq> Some False \<and> ci_checked results
                          \<and> \<not> ci_passed results
                      then [''CI failed''] else []);
                 m3 = (if requireMerge results \<noteq> Some False \<and> \<not> merge_merged results
                       then m2 @ [''PR not merged''] else m2)
             in \<lparr>valid = (m3 = [] \<and> f = []), skip = False, missing = m3, failed = f\<rparr>))"

section \<open>Edge case 4: the persistent task backlog\<close>

definition readPersistentTasks :: "world \<Rightarrow> tasks_data option" where
  "readPersistentTasks w =
     (case persistent_tasks_file w of Good d \<Rightarrow> Some d | _ \<Rightarrow> None)"

definition getPendingTasks :: "world \<Rightarrow> tasks_data option \<Rightarrow> task list" where
  "getPendingTasks w tasksData =
     (case tasksData of
        None \<Rightarrow> []
      | Some d \<Rightarrow>
          (let staleMs = js_or (staleThresholdHours d) DEFAULT_TASK_STALE_HOURS * 60 * 60 * 1000
           in filter (\<lambda>t.
                if status t = ''completed'' \<or> status t = ''blocked'' then False
                else (case createdAt t of
                        None \<Rightarrow> False
                      | Some created \<Rightarrow> now w - created \<le> staleMs))
              (tasks d)))"

section \<open>Edge case 8: the lock\<close>

datatype acquire_result = Acquired | NotAcquired string int

definition acquireLock :: "world \<Rightarrow> acquire_result \<times> world" where
  "acquireLock w =
     (let write = (Acquired, w\<lparr>lock_file := Good \<lparr>agentId = pid w, acquiredAt = Some (now w)\<rparr>\<rparr>)
      in case lock_file w of
           Missing \<Rightarrow> write
         | Malformed \<Rightarrow> (Acquired, w)
         | Good l \<Rightarrow>
             (case acquiredAt l of
                None \<Rightarrow> write
              | Some t \<Rightarrow>
                  if now w - t < LOCK_TIMEOUT_MS
                  then (NotAcquired (agentId l) (now w - t), w)
                  else write))"

definition releaseLock :: "world \<Rightarrow> world" where
  "releaseLock w =
     (case lock_file w of
        Good l \<Rightarrow> if agentId l = pid w then w\<lparr>lock_file := Missing\<rparr> else w
      | _ \<Rightarrow> w)"

section \<open>Edge case 10: escalation to the user\<close>

definition checkUserEscalation :: "string \<Rightarrow> world \<Rightarrow> message option \<times> world" where
  "checkUserEscalation tid w =
     (case failure_file w of
        Good fl \<Rightarrow>
          (case map_of fl tid of
             Some tf \<Rightarrow>
               if f_count tf \<ge> MAX_CONSECUTIVE_FAILURES
               then (Some (MsgEscalationRequired tid (f_count tf)
                             (map fe_error (slice_last 3 (f_errors tf)))),
                     w\<lparr>escalation_file := Good
                         \<lparr>taskId = tid, failures = f_count tf,
                          esc_errors = slice_last 3 (f_errors tf),
                          esc_createdAt = now w\<rparr>\<rparr>)
               else (None, w)
           | None \<Rightarrow> (None, w))
      | _ \<Rightarrow> (None, w))"

section \<open>Edge case 11: cost tracking\<close>

datatype rlm_check = RlmOk | RlmWarning message | RlmBlocked message

definition checkRlmCosts :: "world \<Rightarrow> rlm_check \<times> world" where
  "checkRlmCosts w =
     (case rlm_context_file w of
        Missing \<Rightarrow> (RlmOk, w)
      | Malformed \<Rightarrow> (RlmOk, w)
      | Good ctx \<Rightarrow>
          (let subCalls = js_or (sub_calls ctx) 0;
               loaded = (case rlm_costs_file w of
                           Missing \<Rightarrow> Some \<lparr>total_sub_calls = Some 0, last_updated = None,
                                             sessions = Some []\<rparr>
                         | Malformed \<Rightarrow> None
                         | Good c \<Rightarrow> Some c)
           in case loaded of
                None \<Rightarrow> (RlmOk, w)
              | Some costs \<Rightarrow>
                  (let pushed = (case sessions costs of None \<Rightarrow> [] | Some ss \<Rightarrow> ss) @
                         [\<lparr>s_timestamp = now w, s_sub_calls = subCalls,
                           s_cost_estimate =
                             (case cost_estimate ctx of
                                None \<Rightarrow> ''unknown''
                              | Some e \<Rightarrow> if e = [] then ''unknown'' else e)\<rparr>];
                       costs' = \<lparr>total_sub_calls = to_double (js_or (total_sub_calls costs) 0 + subCalls),
                                 last_updated = Some (now w),
                                 sessions = Some (if length pushed > 10
                                                  then slice_last 10 pushed else pushed)\<rparr>;
                       w' = w\<lparr>rlm_costs_file := Good costs'\<rparr>
                   in if subCalls \<ge> RLM_SUB_CALL_LIMIT then (RlmBlocked (MsgCostLimit subCalls), w')
                      else if subCalls \<ge> RLM_SUB_CALL_WARNING
                        then (RlmWarning (MsgCostWarning subCalls), w')
                      else (RlmOk, w'))))"

section \<open>Edge case 12: validation errors\<close>

text \<open>
  The recent errors are grouped by file in an object literal \<^verbatim>\<open>byFile\<close>, here a map from
  file names to the errors of that file. A file named like a member of
  \<^verbatim>\<open>Object.prototype\<close> finds that member under its name, \<^verbatim>\<open>push\<close> on it throws, and
  the \<^verbatim>\<open>catch\<close> of \<^verbatim>\<open>checkValidationErrors\<close> returns \<^verbatim>\<open>{ ok: true }\<close>. The grouping is
  \<open>None\<close> when it throws.
\<close>

definition file_key :: "validation_error \<Rightarrow> string" where
  "file_key e = (case ve_file e of None \<Rightarrow> ''unknown'' | Some f \<Rightarrow> if f = [] then ''unknown'' else f)"

definition add_to_group ::
  "string \<Rightarrow> validation_error \<Rightarrow> (string \<rightharpoonup> validation_error list)
     \<Rightarrow> (string \<rightharpoonup> validation_error list)" where
  "add_to_group f e groups =
     (case groups f of
        None \<Rightarrow> groups(f \<mapsto> [e])
      | Some es \<Rightarrow> groups(f \<mapsto> es @ [e]))"

fun group_by_file ::
  "validation_error list \<Rightarrow> (string \<rightharpoonup> validation_error list)
     \<Rightarrow> (string \<rightharpoonup> validation_error list) option" where
  "group_by_file [] groups = Some groups"
| "group_by_file (e # es) groups =
     (if file_key e \<in> set object_prototype_members then None
      else group_by_file es (add_to_group (file_key e) e groups))"

text \<open>
  The result is \<open>None\<close> for \<^verbatim>\<open>{ ok: true }\<close> and otherwise the count of the recent
  errors, their grouping, and the text formatted from it.
\<close>

record validation_report =
  errorCount :: nat
  byFile :: "string \<rightharpoonup> validation_error list"
  report_message :: message

definition checkValidationErrors :: "world \<Rightarrow> validation_report option" where
  "checkValidationErrors w =
     (case validation_state_file w of
        Missing \<Rightarrow> None
      | Malformed \<Rightarrow> None
      | Good st \<Rightarrow>
          (let oneHourAgo = now w - 60 * 60 * 1000;
               recentErrors = filter (\<lambda>e. case ve_timestamp e of
                                             None \<Rightarrow> False
                                           | Some t \<Rightarrow> t > oneHourAgo) (v_errors st)
           in if length recentErrors = 0 then None
              else (case group_by_file recentErrors Map.empty of
                      None \<Rightarrow> None
                    | Some grouped \<Rightarrow>
                        Some \<lparr>errorCount = length recentErrors, byFile = grouped,
                              report_message = MsgValidationErrors recentErrors\<rparr>)))"

section \<open>The main hook logic\<close>

definition readState :: "world \<Rightarrow> session_state option" where
  "readState w = (case state_file w of Good s \<Rightarrow> Some s | _ \<Rightarrow> None)"

definition shouldForceExit :: "world \<Rightarrow> bool \<times> world" where
  "shouldForceExit w =
     (if force_exit_file w then (True, w\<lparr>force_exit_file := False\<rparr>) else (False, w))"

definition shouldForceComplete :: "world \<Rightarrow> bool \<times> world" where
  "shouldForceComplete w =
     (if force_complete_file w then (True, w\<lparr>force_complete_file := False\<rparr>) else (False, w))"

definition shouldRalphHandoff :: "world \<Rightarrow> bool \<times> world" where
  "shouldRalphHandoff w =
     (if ralph_handoff_file w then (True, w\<lparr>ralph_handoff_file := False\<rparr>) else (False, w))"

text \<open>
  \<^verbatim>\<open>getPhasePrompt\<close> looks the phase up in an object literal that has a text for PLAN,
  BUILD, REVIEW, FIX and SHIP and \<^verbatim>\<open>null\<close> for COMPLETE. A phase named like a member of
  \<^verbatim>\<open>Object.prototype\<close> finds that member, which is truthy and is returned; every other
  phase yields \<^verbatim>\<open>null\<close>. The header interpolates the phase, the iteration and the limit.
\<close>

definition getPhasePrompt :: "session_state \<Rightarrow> message option" where
  "getPhasePrompt s =
     (if phase s \<in> set [''PLAN'', ''BUILD'', ''REVIEW'', ''FIX'', ''SHIP'']
      then Some (MsgPhasePrompt (phase s) (iteration s) (maxIterations s))
      else if phase s \<in> set object_prototype_members
      then Some (MsgInherited (phase s))
      else None)"

definition writeState :: "session_state \<Rightarrow> world \<Rightarrow> world" where
  "writeState s w = w\<lparr>state_file := Good s, state_mtime := now w\<rparr>"

text \<open>Lines 739 to 771 of \<^verbatim>\<open>main\<close>: the override markers and the escalation marker.\<close>

definition marker_checks :: "world \<Rightarrow> world step" where
  "marker_checks w =
     (case shouldForceExit w of
        (True, w1) \<Rightarrow> Exit \<lparr>r_exit = Exit0, r_stdout = [MsgForceExit], r_world = w1\<rparr>
      | (False, w1) \<Rightarrow>
     (case shouldForceComplete w1 of
        (True, w2) \<Rightarrow> Exit \<lparr>r_exit = Exit0, r_stdout = [MsgForceComplete], r_world = w2\<rparr>
      | (False, w2) \<Rightarrow>
     (case shouldRalphHandoff w2 of
        (True, w3) \<Rightarrow> Exit \<lparr>r_exit = Exit0, r_stdout = [MsgRalphHandoff], r_world = w3\<rparr>
      | (False, w3) \<Rightarrow>
     (case escalation_file w3 of
        Good esc \<Rightarrow>
          Exit \<lparr>r_exit = Exit2 EscalationPending,
                r_stdout = [MsgEscalationPending (taskId esc)], r_world = w3\<rparr>
      | _ \<Rightarrow> Continue w3))))"

text \<open>Lines 776 to 785: the cost check; a warning is printed and the run goes on.\<close>

definition cost_check :: "world \<Rightarrow> (message list \<times> world) step" where
  "cost_check w =
     (case checkRlmCosts w of
        (RlmBlocked m, w1) \<Rightarrow>
          Exit \<lparr>r_exit = Exit2 CostLimitReached, r_stdout = [m], r_world = w1\<rparr>
      | (RlmWarning m, w1) \<Rightarrow> Continue ([m], w1)
      | (RlmOk, w1) \<Rightarrow> Continue ([], w1))"

text \<open>
  Lines 787 to 814: the running loop. The state read at line 773 is passed in, and the
  state as the run holds it afterwards is passed on.
\<close>

definition loop_check ::
  "session_state option \<Rightarrow> message list \<Rightarrow> world
     \<Rightarrow> (session_state option \<times> message list \<times> world) step" where
  "loop_check state out w =
     (case state of
        None \<Rightarrow> Continue (state, out, w)
      | Some s \<Rightarrow>
          if \<not> complete s \<and> phase s \<noteq> ''COMPLETE'' \<and> phase s \<noteq> ''SHIP'' then
            (if isStateStale w then Continue (state, out @ [MsgStale], w)
             else
               (case checkIterationLimit state of
                  Some m \<Rightarrow>
                    Exit \<lparr>r_exit = Exit2 IterationLimitReached, r_stdout = out @ [m], r_world = w\<rparr>
                | None \<Rightarrow>
                    (let s' = s\<lparr>iteration := to_double (js_or (iteration s) 0 + 1),
                                lastActivity := Some (now w)\<rparr>;
                         w' = writeState s' w
                     in case getPhasePrompt s' of
                          Some p \<Rightarrow>
                            Exit \<lparr>r_exit = Exit2 (DeepLoopPhase (phase s')),
                                  r_stdout = out @ [p], r_world = w'\<rparr>
                        | None \<Rightarrow> Continue (Some s', out, w'))))
          else Continue (state, out, w))"

text \<open>Lines 816 to 866: completion is verified, and the state reverted when it fails.\<close>

definition completion_check ::
  "session_state option \<Rightarrow> message list \<Rightarrow> world \<Rightarrow> (message list \<times> world) step" where
  "completion_check state out w =
     (case state of
        None \<Rightarrow> Continue (out, w)
      | Some s \<Rightarrow>
          if complete s \<or> phase s = ''COMPLETE'' \<or> phase s = ''SHIP'' then
            (case checkValidationErrors w of
               Some report \<Rightarrow>
                 Exit \<lparr>r_exit = Exit2 ValidationErrorsPending,
                       r_stdout = out @ [report_message report],
                       r_world = writeState (s\<lparr>phase := ''FIX'', complete := False\<rparr>) w\<rparr>
             | None \<Rightarrow>
                 (let testV = verifyTestResults w in
                  if \<not> valid testV then
                    Exit \<lparr>r_exit = Exit2 TestVerificationFailed,
                          r_stdout = out @ [MsgTestsNotVerified (missing testV) (failed testV)],
                          r_world = writeState (s\<lparr>phase := ''REVIEW'', complete := False\<rparr>) w\<rparr>
                  else
                    (let gitV = verifyGitResults w in
                     if \<not> skip gitV \<and> \<not> valid gitV then
                       Exit \<lparr>r_exit = Exit2 GitVerificationFailed,
                             r_stdout = out @ [MsgGitIncomplete (missing gitV) (failed gitV)],
                             r_world = writeState (s\<lparr>phase := ''REVIEW'', complete := False\<rparr>) w\<rparr>
                     else Continue (out, w))))
          else Continue (out, w))"

text \<open>
  Everything \<^verbatim>\<open>main\<close> does before it looks at the backlog (lines 739 to 866): either
  the run has exited, or it goes on with what it has printed and the world it has left.
\<close>

definition earlier_checks :: "world \<Rightarrow> (tasks_data option \<times> message list \<times> world) step" where
  "earlier_checks w =
     (case marker_checks w of
        Exit r \<Rightarrow> Exit r
      | Continue w1 \<Rightarrow>
          (let state = readState w1; tasksData = readPersistentTasks w1
           in case cost_check w1 of
                Exit r \<Rightarrow> Exit r
              | Continue (out1, w2) \<Rightarrow>
                  (case loop_check state out1 w2 of
                     Exit r \<Rightarrow> Exit r
                   | Continue (state', out2, w3) \<Rightarrow>
                       (case completion_check state' out2 w3 of
                          Exit r \<Rightarrow> Exit r
                        | Continue (out3, w4) \<Rightarrow> Continue (tasksData, out3, w4)))))"

text \<open>
  Lines 868 to 898: the backlog. The current task is the first pending one that is
  in progress, and the first pending one when none is.
\<close>

definition current_task :: "task list \<Rightarrow> task option" where
  "current_task pendingTasks =
     (case find (\<lambda>t. status t = ''in_progress'') pendingTasks of
        Some t \<Rightarrow> Some t
      | None \<Rightarrow> (case pendingTasks of [] \<Rightarrow> None | t # _ \<Rightarrow> Some t))"

definition backlog_check :: "tasks_data option \<Rightarrow> message list \<Rightarrow> world \<Rightarrow> result" where
  "backlog_check tasksData out w =
     (let pendingTasks = getPendingTasks w tasksData
      in case current_task pendingTasks of
           Some current \<Rightarrow>
             (case checkUserEscalation (task_id current) w of
                (Some m, w1) \<Rightarrow>
                  \<lparr>r_exit = Exit2 EscalationRequired, r_stdout = out @ [m], r_world = w1\<rparr>
              | (None, w1) \<Rightarrow>
                  \<lparr>r_exit = Exit2 (TasksRemaining (length pendingTasks)),
                   r_stdout = out @ [MsgTasksRemaining (length pendingTasks)
                                       (content current) (task_id current)],
                   r_world = w1\<rparr>)
         | None \<Rightarrow>
             \<lparr>r_exit = Exit0, r_stdout = out @ [MsgExitAllowed], r_world = releaseLock w\<rparr>)"

definition main :: "world \<Rightarrow> result" where
  "main w =
     (case earlier_checks w of
        Exit r \<Rightarrow> r
      | Continue (tasksData, out, w') \<Rightarrow> backlog_check tasksData out w')"

section \<open>Conditions under which a check is reached\<close>

text \<open>
  No override marker (FORCE_EXIT, FORCE_COMPLETE, RALPH_HANDOFF) is present and no
  readable escalation marker: the run gets past line 771.
\<close>

definition no_markers :: "world \<Rightarrow> bool" where
  "no_markers w =
     (\<not> force_exit_file w \<and> \<not> force_complete_file w \<and> \<not> ralph_handoff_file w \<and>
      (case escalation_file w of Good e \<Rightarrow> False | _ \<Rightarrow> True))"

text \<open>The cost check of line 777 reports \<^verbatim>\<open>blocked\<close>; and what it prints when it does not.\<close>

definition cost_blocks :: "world \<Rightarrow> bool" where
  "cost_blocks w = (case fst (checkRlmCosts w) of RlmBlocked m \<Rightarrow> True | _ \<Rightarrow> False)"

definition cost_notices :: "world \<Rightarrow> message list" where
  "cost_notices w = (case fst (checkRlmCosts w) of RlmWarning m \<Rightarrow> [m] | _ \<Rightarrow> [])"

text \<open>A validation error of the last hour, as \<^verbatim>\<open>checkValidationErrors\<close> filters them.\<close>

definition recent_error :: "world \<Rightarrow> validation_error \<Rightarrow> bool" where
  "recent_error w e =
     (case ve_timestamp e of None \<Rightarrow> False | Some t \<Rightarrow> now w - 60 * 60 * 1000 < t)"

text \<open>A test category has results, was run and passed.\<close>

definition category_ok :: "category_result option \<Rightarrow> bool" where
  "category_ok r = (case r of None \<Rightarrow> False | Some c \<Rightarrow> ran c \<and> passed c)"

text \<open>
  What the cumulative cost file held before a run: its running total and its history
  (nothing when the file is absent), and the entry a run appends for the current burst.
\<close>

definition previous_total :: "world \<Rightarrow> int" where
  "previous_total w =
     (case rlm_costs_file w of Good c \<Rightarrow> js_or (total_sub_calls c) 0 | _ \<Rightarrow> 0)"

definition previous_sessions :: "world \<Rightarrow> cost_session list" where
  "previous_sessions w =
     (case rlm_costs_file w of
        Good c \<Rightarrow> (case sessions c of None \<Rightarrow> [] | Some ss \<Rightarrow> ss)
      | _ \<Rightarrow> [])"

definition burst_session :: "world \<Rightarrow> rlm_context \<Rightarrow> cost_session" where
  "burst_session w ctx =
     \<lparr>s_timestamp = now w, s_sub_calls = js_or (sub_calls ctx) 0,
      s_cost_estimate = (case cost_estimate ctx of
                           None \<Rightarrow> ''unknown''
                         | Some e \<Rightarrow> if e = [] then ''unknown'' else e)\<rparr>"

text \<open>
  A session the loop keeps running: not complete, in a phase that has a prompt and is
  not SHIP, with no marker and the cost check not blocking.
\<close>

definition loop_running :: "world \<Rightarrow> session_state \<Rightarrow> bool" where
  "loop_running w s =
     (state_file w = Good s \<and> \<not> complete s \<and>
      phase s \<in> set [''PLAN'', ''BUILD'', ''REVIEW'', ''FIX''] \<and>
      no_markers w \<and> \<not> cost_blocks w)"

text \<open>
  \<open>unread U I\<close>: on worlds satisfying \<open>I\<close>, the change \<open>U\<close> of the world is invisible to
  everything a run reads and commutes with everything a run writes before its exit is
  decided.
\<close>

definition unread :: "(world \<Rightarrow> world) \<Rightarrow> (world \<Rightarrow> bool) \<Rightarrow> bool" where
  "unread U I =
     (\<forall>w. I w \<longrightarrow>
        force_exit_file (U w) = force_exit_file w \<and>
        force_complete_file (U w) = force_complete_file w \<and>
        ralph_handoff_file (U w) = ralph_handoff_file w \<and>
        escalation_file (U w) = escalation_file w \<and>
        readState (U w) = readState w \<and>
        readPersistentTasks (U w) = readPersistentTasks w \<and>
        fst (checkRlmCosts (U w)) = fst (checkRlmCosts w) \<and>
        snd (checkRlmCosts (U w)) = U (snd (checkRlmCosts w)) \<and>
        I (snd (checkRlmCosts w)) \<and>
        (readState w \<noteq> None \<longrightarrow>
           now (U w) = now w \<and>
           isStateStale (U w) = isStateStale w \<and>
           (\<forall>s. U (writeState s w) = writeState s (U w) \<and> I (writeState s w)) \<and>
           checkValidationErrors (U w) = checkValidationErrors w \<and>
           valid (verifyTestResults (U w)) = valid (verifyTestResults w) \<and>
           skip (verifyGitResults (U w)) = skip (verifyGitResults w) \<and>
           valid (verifyGitResults (U w)) = valid (verifyGitResults w)) \<and>
        (\<forall>td. getPendingTasks (U w) td = getPendingTasks w td) \<and>
        (\<forall>tid. fst (checkUserEscalation tid (U w)) = fst (checkUserEscalation tid w)))"

text \<open>
  Repeated runs of the hook with nothing else touching the files: the list gives the
  clock of each run; the exits of the runs and the last world are returned.
  \<open>paced m ts\<close> says that each run comes at most eight hours after the state file was
  last written, \<open>m\<close> being its modification time before the first run.
\<close>

fun evaluations :: "int list \<Rightarrow> world \<Rightarrow> exit list \<times> world" where
  "evaluations [] w = ([], w)"
| "evaluations (t # ts) w =
     (let r = main (w\<lparr>now := t\<rparr>); rest = evaluations ts (r_world r)
      in (r_exit r # fst rest, snd rest))"

fun paced :: "int \<Rightarrow> int list \<Rightarrow> bool" where
  "paced m [] = True"
| "paced m (t # ts) = (t - m \<le> STALE_THRESHOLD_MS \<and> paced t ts)"

section \<open>Sample records\<close>

definition quiet_world :: world where
  "quiet_world =
     \<lparr>now = 100000000, pid = ''4242'',
      force_exit_file = False, force_complete_file = False, ralph_handoff_file = False,
      escalation_file = Missing, state_file = Missing, state_mtime = 100000000,
      test_results_file = Missing, git_results_file = Missing,
      persistent_tasks_file = Missing, failure_file = Missing,
      rlm_context_file = Missing, rlm_costs_file = Missing,
      validation_state_file = Missing, lock_file = Missing\<rparr>"

definition build_state :: "int \<Rightarrow> int option \<Rightarrow> session_state" where
  "build_state i mx =
     \<lparr>phase = ''BUILD'', iteration = Some i, maxIterations = mx, complete = False,
      lastActivity = Some 100000000\<rparr>"

definition ship_state :: session_state where
  "ship_state =
     \<lparr>phase = ''SHIP'', iteration = Some 4, maxIterations = Some 10, complete = True,
      lastActivity = Some 100000000\<rparr>"

definition passing_tests :: test_results where
  "passing_tests =
     \<lparr>r_tests = Some \<lparr>ran = True, passed = True\<rparr>, r_types = Some \<lparr>ran = True, passed = True\<rparr>,
      r_lint = Some \<lparr>ran = True, passed = True\<rparr>, r_build = Some \<lparr>ran = True, passed = True\<rparr>,
      allPassed = True\<rparr>"

definition git_without_pr :: git_results where
  "git_without_pr =
     \<lparr>isGitRepo = True, hasGhCli = True, pr_created = False, ci_checked = True,
      ci_passed = True, merge_merged = True, requirePR = Some True,
      requireCIPass = Some False, requireMerge = Some False\<rparr>"

definition validation_with_error :: "int \<Rightarrow> validation_state" where
  "validation_with_error t =
     \<lparr>v_errors = [\<lparr>ve_file = Some ''data.json'', ve_message = ''Unexpected token'',
                   ve_line = Some 3, ve_timestamp = Some t\<rparr>],
      filesValidated = 1\<rparr>"

definition sample_task :: "string \<Rightarrow> string \<Rightarrow> int \<Rightarrow> task" where
  "sample_task i st t = \<lparr>task_id = i, content = ''work'', status = st, createdAt = Some t\<rparr>"

definition failures_of :: "string \<Rightarrow> int \<Rightarrow> (string \<times> task_failures) list" where
  "failures_of i n =
     [(i, \<lparr>f_count = n, f_errors = [\<lparr>fe_error = ''boom'', fe_timestamp = 99000000\<rparr>]\<rparr>)]"

section \<open>Each check leaves the rest of the world alone\<close>

lemma to_double_exact:
  assumes "\<bar>n\<bar> \<le> 2 ^ 53"
  shows "to_double n = Some n"
  by (simp only: to_double_def Let_def assms if_True)

lemma to_double_tie: "to_double 9007199254740993 = Some 9007199254740992"
  by code_simp

lemmas hook_defs =
  main_def earlier_checks_def marker_checks_def shouldForceExit_def shouldForceComplete_def
  shouldRalphHandoff_def readState_def readPersistentTasks_def cost_check_def checkRlmCosts_def
  loop_check_def isStateStale_def checkIterationLimit_def getPhasePrompt_def writeState_def
  completion_check_def checkValidationErrors_def verifyTestResults_def check_category_def
  verifyGitResults_def backlog_check_def getPendingTasks_def current_task_def
  checkUserEscalation_def releaseLock_def js_or_def slice_last_def no_markers_def
  cost_blocks_def cost_notices_def file_key_def object_prototype_members_def
  to_double_exact to_double_tie
  STALE_THRESHOLD_MS_def DEFAULT_TASK_STALE_HOURS_def MAX_CONSECUTIVE_FAILURES_def
  RLM_SUB_CALL_WARNING_def RLM_SUB_CALL_LIMIT_def

lemmas sample_defs =
  quiet_world_def build_state_def ship_state_def passing_tests_def git_without_pr_def
  validation_with_error_def sample_task_def failures_of_def

lemma getPendingTasks_now: "now w' = now w \<Longrightarrow> getPendingTasks w' td = getPendingTasks w td"
  by (simp add: getPendingTasks_def cong: option.case_cong)


lemma marker_checks_pass: "no_markers w \<Longrightarrow> marker_checks w = Continue w"
  by (simp add: no_markers_def marker_checks_def shouldForceExit_def shouldForceComplete_def
      shouldRalphHandoff_def split: stored.splits)

lemma marker_checks_Continue:
  "marker_checks w = Continue w' \<Longrightarrow> w' = w \<and> no_markers w"
  by (auto simp add: no_markers_def marker_checks_def shouldForceExit_def shouldForceComplete_def
      shouldRalphHandoff_def split: stored.splits if_splits)

lemma cost_check_pass:
  "\<not> cost_blocks w \<Longrightarrow> cost_check w = Continue (cost_notices w, snd (checkRlmCosts w))"
  by (cases "checkRlmCosts w"; cases "fst (checkRlmCosts w)")
     (simp_all add: cost_blocks_def cost_notices_def cost_check_def)

lemma checkRlmCosts_world:
  "snd (checkRlmCosts w) = w\<lparr>rlm_costs_file := rlm_costs_file (snd (checkRlmCosts w))\<rparr>"
  by (cases "rlm_context_file w"; cases "rlm_costs_file w")
     (simp_all add: checkRlmCosts_def Let_def)

lemma earlier_checks_pass:
  assumes "no_markers w" and "\<not> cost_blocks w"
  shows "earlier_checks w =
     (case loop_check (readState w) (cost_notices w) (snd (checkRlmCosts w)) of
        Exit r \<Rightarrow> Exit r
      | Continue (st', out2, w3) \<Rightarrow>
          (case completion_check st' out2 w3 of
             Exit r \<Rightarrow> Exit r
           | Continue (out3, w4) \<Rightarrow> Continue (readPersistentTasks w, out3, w4)))"
  using assms by (simp add: earlier_checks_def marker_checks_pass cost_check_pass)

lemma loop_check_Exit:
  assumes "loop_check st out w = Exit r"
  shows "r_exit r \<noteq> Exit2 CostLimitReached \<and> set out \<subseteq> set (r_stdout r) \<and>
         r_world r = w\<lparr>state_file := state_file (r_world r), state_mtime := state_mtime (r_world r)\<rparr>"
  using assms
  by (auto simp add: loop_check_def writeState_def Let_def split: option.splits if_splits)

lemma loop_check_Continue:
  assumes "loop_check st out w = Continue (st', out', w')"
  shows "set out \<subseteq> set out' \<and>
         w' = w\<lparr>state_file := state_file w', state_mtime := state_mtime w'\<rparr>"
  using assms
  by (auto simp add: loop_check_def writeState_def Let_def split: option.splits if_splits)

lemma completion_check_Exit:
  assumes "completion_check st out w = Exit r"
  shows "r_exit r \<noteq> Exit2 CostLimitReached \<and> set out \<subseteq> set (r_stdout r) \<and>
         r_world r = w\<lparr>state_file := state_file (r_world r), state_mtime := state_mtime (r_world r)\<rparr>"
  using assms
  by (auto simp add: completion_check_def writeState_def Let_def split: option.splits if_splits)

lemma completion_check_Continue:
  assumes "completion_check st out w = Continue (out', w')"
  shows "out' = out \<and> w' = w"
  using assms
  by (auto simp add: completion_check_def Let_def split: option.splits if_splits)

lemma backlog_check_frame:
  "r_exit (backlog_check td out w) \<noteq> Exit2 CostLimitReached \<and>
   set out \<subseteq> set (r_stdout (backlog_check td out w)) \<and>
   r_world (backlog_check td out w) =
     w\<lparr>escalation_file := escalation_file (r_world (backlog_check td out w)),
       lock_file := lock_file (r_world (backlog_check td out w))\<rparr>"
  by (auto simp add: backlog_check_def checkUserEscalation_def releaseLock_def Let_def
      split: option.splits if_splits stored.splits prod.splits)

lemma checkValidationErrors_frame:
  "now w' = now w \<Longrightarrow> validation_state_file w' = validation_state_file w
     \<Longrightarrow> checkValidationErrors w' = checkValidationErrors w"
  by (cases "validation_state_file w") (simp_all add: checkValidationErrors_def)

lemma verifyTestResults_frame:
  "test_results_file w' = test_results_file w \<Longrightarrow> verifyTestResults w' = verifyTestResults w"
  by (simp add: verifyTestResults_def)

lemma verifyGitResults_frame:
  "git_results_file w' = git_results_file w \<Longrightarrow> verifyGitResults w' = verifyGitResults w"
  by (simp add: verifyGitResults_def)

lemma cost_check_Continue:
  assumes "cost_check w = Continue (out, w')"
  shows "w' = w\<lparr>rlm_costs_file := rlm_costs_file w'\<rparr>"
proof -
  have "w' = snd (checkRlmCosts w)"
    using assms by (auto simp add: cost_check_def split: prod.splits rlm_check.splits)
  then show ?thesis
    using checkRlmCosts_world [of w] by simp
qed

lemma earlier_checks_Continue:
  assumes "earlier_checks w = Continue (td, out, w1)"
  shows "no_markers w \<and> td = readPersistentTasks w \<and>
         w1 = w\<lparr>rlm_costs_file := rlm_costs_file w1, state_file := state_file w1,
                state_mtime := state_mtime w1\<rparr>"
proof -
  obtain wa where m: "marker_checks w = Continue wa"
    using assms by (auto simp add: earlier_checks_def split: step.splits)
  then have wa: "wa = w" and nm: "no_markers w"
    using marker_checks_Continue by blast+
  obtain o1 w2 where cc: "cost_check w = Continue (o1, w2)"
    using assms m wa by (auto simp add: earlier_checks_def Let_def split: step.splits)
  obtain st o2 w3 where lc: "loop_check (readState w) o1 w2 = Continue (st, o2, w3)"
    using assms m wa cc by (auto simp add: earlier_checks_def Let_def split: step.splits)
  obtain o3 w4 where vc: "completion_check st o2 w3 = Continue (o3, w4)"
    using assms m wa cc lc by (auto simp add: earlier_checks_def Let_def split: step.splits)
  have res: "td = readPersistentTasks w" "w1 = w4"
    using assms m wa cc lc vc by (simp_all add: earlier_checks_def Let_def)
  define c where "c = rlm_costs_file w2"
  define sf where "sf = state_file w3"
  define mt where "mt = state_mtime w3"
  have e2: "w2 = w\<lparr>rlm_costs_file := c\<rparr>"
    using cc cost_check_Continue unfolding c_def by blast
  have e3: "w3 = w2\<lparr>state_file := sf, state_mtime := mt\<rparr>"
    using lc loop_check_Continue unfolding sf_def mt_def by blast
  have e4: "w4 = w3"
    using vc completion_check_Continue by blast
  have "w1 = w\<lparr>rlm_costs_file := c, state_file := sf, state_mtime := mt\<rparr>"
    using res e2 e3 e4 by simp
  then have "w1 = w\<lparr>rlm_costs_file := rlm_costs_file w1, state_file := state_file w1,
                state_mtime := state_mtime w1\<rparr>"
    by simp
  then show ?thesis
    using nm res by simp
qed

section \<open>The current task, and runs under an escalation marker\<close>

lemma find_hd_filter: "find P xs = Some x \<Longrightarrow> x = hd (filter P xs)"
  by (induction xs) (auto split: if_splits)

lemma current_task_selects:
  assumes "current_task pend = Some cur"
  shows "cur \<in> set pend \<and>
         (if \<exists>t \<in> set pend. status t = ''in_progress''
          then cur = hd (filter (\<lambda>t. status t = ''in_progress'') pend)
          else cur = hd pend)"
proof (cases "find (\<lambda>t. status t = ''in_progress'') pend")
  case None
  then have no: "\<not> (\<exists>t \<in> set pend. status t = ''in_progress'')"
    by (simp add: find_None_iff)
  have "pend \<noteq> [] \<and> cur = hd pend"
    using assms None by (cases pend) (simp_all add: current_task_def)
  then show ?thesis
    using no by simp
next
  case (Some t)
  then have "cur = t"
    using assms by (simp add: current_task_def)
  moreover have "t \<in> set pend \<and> status t = ''in_progress''"
    using Some by (auto simp add: find_Some_iff)
  moreover have "t = hd (filter (\<lambda>t. status t = ''in_progress'') pend)"
    using Some by (rule find_hd_filter)
  ultimately show ?thesis
    by auto
qed

lemma escalation_pending_run:
  assumes "\<not> force_exit_file w" and "\<not> force_complete_file w" and "\<not> ralph_handoff_file w"
    and "escalation_file w = Good e"
  shows "main w = \<lparr>r_exit = Exit2 EscalationPending,
                   r_stdout = [MsgEscalationPending (taskId e)], r_world = w\<rparr>"
  using assms
  by (simp add: main_def earlier_checks_def marker_checks_def shouldForceExit_def
      shouldForceComplete_def shouldRalphHandoff_def)

lemma evaluations_escalation_pending:
  assumes "\<not> force_exit_file w" and "\<not> force_complete_file w" and "\<not> ralph_handoff_file w"
    and "escalation_file w = Good e"
  shows "fst (evaluations ts w) = replicate (length ts) (Exit2 EscalationPending) \<and>
         escalation_file (snd (evaluations ts w)) = Good e"
  using assms
proof (induction ts arbitrary: w)
  case Nil
  then show ?case by simp
next
  case (Cons t ts)
  let ?w = "w\<lparr>now := t\<rparr>"
  have m: "main ?w = \<lparr>r_exit = Exit2 EscalationPending,
                   r_stdout = [MsgEscalationPending (taskId e)], r_world = ?w\<rparr>"
    using Cons.prems escalation_pending_run [of ?w e] by simp
  have "fst (evaluations ts ?w) = replicate (length ts) (Exit2 EscalationPending) \<and>
         escalation_file (snd (evaluations ts ?w)) = Good e"
    using Cons.prems Cons.IH [of ?w] by simp
  then show ?case
    using m by (simp add: Let_def)
qed

section \<open>What the cost check writes\<close>

lemma slice_last_short: "length xs \<le> n \<Longrightarrow> slice_last n xs = xs"
  by (simp add: slice_last_def)

lemma length_slice_last: "length (slice_last n xs) \<le> n"
  by (simp add: slice_last_def)

lemma checkRlmCosts_readable:
  assumes "rlm_context_file w = Good ctx" and "rlm_costs_file w \<noteq> Malformed"
  shows "checkRlmCosts w =
     (if js_or (sub_calls ctx) 0 \<ge> 50 then RlmBlocked (MsgCostLimit (js_or (sub_calls ctx) 0))
      else if js_or (sub_calls ctx) 0 \<ge> 30 then RlmWarning (MsgCostWarning (js_or (sub_calls ctx) 0))
      else RlmOk,
      w\<lparr>rlm_costs_file := Good
          \<lparr>total_sub_calls = to_double (previous_total w + js_or (sub_calls ctx) 0),
           last_updated = Some (now w),
           sessions = Some (slice_last 10 (previous_sessions w @ [burst_session w ctx]))\<rparr>\<rparr>)"
proof (cases "rlm_costs_file w")
  case Missing
  have "js_or (Some 0) 0 = 0" by (simp add: js_or_def)
  with Missing show ?thesis
    using assms(1)
    by (simp add: checkRlmCosts_def Let_def previous_total_def previous_sessions_def
        burst_session_def slice_last_short RLM_SUB_CALL_LIMIT_def RLM_SUB_CALL_WARNING_def)
next
  case Malformed
  then show ?thesis using assms(2) by simp
next
  case (Good c)
  have s: "(if 10 < length xs then slice_last 10 xs else xs) = slice_last 10 xs"
    for xs :: "cost_session list"
    by (simp add: slice_last_short)
  show ?thesis
    using assms(1) Good
    by (simp add: checkRlmCosts_def Let_def previous_total_def previous_sessions_def
        burst_session_def s RLM_SUB_CALL_LIMIT_def RLM_SUB_CALL_WARNING_def)
qed

lemma main_after_cost:
  assumes "no_markers w" and "\<not> cost_blocks w"
  shows "r_exit (main w) \<noteq> Exit2 CostLimitReached \<and>
         set (cost_notices w) \<subseteq> set (r_stdout (main w)) \<and>
         rlm_costs_file (r_world (main w)) = rlm_costs_file (snd (checkRlmCosts w))"
proof -
  let ?w2 = "snd (checkRlmCosts w)"
  let ?o1 = "cost_notices w"
  have e: "earlier_checks w =
     (case loop_check (readState w) ?o1 ?w2 of
        Exit r \<Rightarrow> Exit r
      | Continue (st', out2, w3) \<Rightarrow>
          (case completion_check st' out2 w3 of
             Exit r \<Rightarrow> Exit r
           | Continue (out3, w4) \<Rightarrow> Continue (readPersistentTasks w, out3, w4)))"
    using assms by (rule earlier_checks_pass)
  show ?thesis
  proof (cases "loop_check (readState w) ?o1 ?w2")
    case (Exit r)
    then have "main w = r" using e by (simp add: main_def)
    moreover have "r_exit r \<noteq> Exit2 CostLimitReached \<and> set ?o1 \<subseteq> set (r_stdout r) \<and>
         r_world r = ?w2\<lparr>state_file := state_file (r_world r), state_mtime := state_mtime (r_world r)\<rparr>"
      using Exit by (rule loop_check_Exit)
    ultimately show ?thesis
      by (metis world.select_convs(14) world.surjective world.update_convs(7,8))
  next
    case (Continue x)
    obtain st o2 w3 where x: "x = (st, o2, w3)" by (cases x)
    have l: "set ?o1 \<subseteq> set o2 \<and> w3 = ?w2\<lparr>state_file := state_file w3, state_mtime := state_mtime w3\<rparr>"
      using Continue x loop_check_Continue by blast
    then have c3: "rlm_costs_file w3 = rlm_costs_file ?w2"
      by (metis world.select_convs(14) world.surjective world.update_convs(7,8))
    show ?thesis
    proof (cases "completion_check st o2 w3")
      case (Exit r)
      then have "main w = r" using e Continue x by (simp add: main_def)
      moreover have "r_exit r \<noteq> Exit2 CostLimitReached \<and> set o2 \<subseteq> set (r_stdout r) \<and>
         r_world r = w3\<lparr>state_file := state_file (r_world r), state_mtime := state_mtime (r_world r)\<rparr>"
        using Exit by (rule completion_check_Exit)
      moreover have "rlm_costs_file (w3\<lparr>state_file := a, state_mtime := b\<rparr>) = rlm_costs_file w3" for a b
        by simp
      ultimately show ?thesis
        using l c3 by (metis order_trans)
    next
      case (Continue y)
      obtain o3 w4 where y: "y = (o3, w4)" by (cases y)
      have v: "o3 = o2 \<and> w4 = w3"
        using Continue y completion_check_Continue by blast
      have m: "main w = backlog_check (readPersistentTasks w) o2 w3"
        using e \<open>loop_check (readState w) ?o1 ?w2 = Continue x\<close> x Continue y v
        by (simp add: main_def)
      have b: "r_exit (backlog_check (readPersistentTasks w) o2 w3) \<noteq> Exit2 CostLimitReached \<and>
         set o2 \<subseteq> set (r_stdout (backlog_check (readPersistentTasks w) o2 w3)) \<and>
         r_world (backlog_check (readPersistentTasks w) o2 w3) =
           w3\<lparr>escalation_file := escalation_file (r_world (backlog_check (readPersistentTasks w) o2 w3)),
              lock_file := lock_file (r_world (backlog_check (readPersistentTasks w) o2 w3))\<rparr>"
        by (rule backlog_check_frame)
      have "rlm_costs_file (w3\<lparr>escalation_file := a, lock_file := b\<rparr>) = rlm_costs_file w3" for a b
        by simp
      then have "rlm_costs_file (r_world (backlog_check (readPersistentTasks w) o2 w3)) = rlm_costs_file w3"
        using b by metis
      then show ?thesis
        using m b l c3 by auto
    qed
  qed
qed

section \<open>A session the loop keeps running\<close>

lemma cost_blocks_iff:
  "cost_blocks w =
     (case rlm_context_file w of
        Good ctx \<Rightarrow> js_or (sub_calls ctx) 0 \<ge> 50 \<and> rlm_costs_file w \<noteq> Malformed
      | _ \<Rightarrow> False)"
  by (cases "rlm_context_file w"; cases "rlm_costs_file w")
     (simp_all add: cost_blocks_def checkRlmCosts_def Let_def RLM_SUB_CALL_LIMIT_def)

lemma checkRlmCosts_Malformed:
  "rlm_costs_file (snd (checkRlmCosts w)) = Malformed \<longleftrightarrow> rlm_costs_file w = Malformed"
  by (cases "rlm_context_file w"; cases "rlm_costs_file w")
     (simp_all add: checkRlmCosts_def Let_def)

lemma falsy_limit_never_blocks:
  "maxIterations s \<in> {None, Some 0} \<Longrightarrow> checkIterationLimit (Some s) = None"
  by (auto simp add: checkIterationLimit_def)

lemma getPhasePrompt_phase:
  "getPhasePrompt (s\<lparr>iteration := i, lastActivity := a\<rparr>) = None \<longleftrightarrow> getPhasePrompt s = None"
  by (simp add: getPhasePrompt_def)

lemma backlog_check_exits:
  "r_exit (backlog_check td out w) \<noteq> Exit2 IterationLimitReached \<and>
   state_file (r_world (backlog_check td out w)) = state_file w"
  by (auto simp add: backlog_check_def checkUserEscalation_def releaseLock_def Let_def
      split: option.splits if_splits stored.splits prod.splits)

text \<open>One run of a session that is incomplete, fresh and without a limit.\<close>

lemma increment_run:
  assumes "state_file w = Good s" and "\<not> complete s"
    and "phase s \<noteq> ''COMPLETE''" and "phase s \<noteq> ''SHIP''"
    and "maxIterations s \<in> {None, Some 0}"
    and "no_markers w" and "\<not> cost_blocks w"
    and "now w - state_mtime w \<le> STALE_THRESHOLD_MS"
  shows "main w =
     (case getPhasePrompt (s\<lparr>iteration := to_double (js_or (iteration s) 0 + 1),
                             lastActivity := Some (now w)\<rparr>) of
        Some p \<Rightarrow>
          \<lparr>r_exit = Exit2 (DeepLoopPhase (phase s)),
           r_stdout = cost_notices w @ [p],
           r_world = (snd (checkRlmCosts w))
              \<lparr>state_file := Good (s\<lparr>iteration := to_double (js_or (iteration s) 0 + 1),
                                     lastActivity := Some (now w)\<rparr>),
               state_mtime := now w\<rparr>\<rparr>
      | None \<Rightarrow>
          backlog_check (readPersistentTasks w) (cost_notices w)
            ((snd (checkRlmCosts w))
              \<lparr>state_file := Good (s\<lparr>iteration := to_double (js_or (iteration s) 0 + 1),
                                     lastActivity := Some (now w)\<rparr>),
               state_mtime := now w\<rparr>))"
proof -
  obtain c where c: "snd (checkRlmCosts w) = w\<lparr>rlm_costs_file := c\<rparr>"
    using checkRlmCosts_world by blast
  let ?s = "s\<lparr>iteration := to_double (js_or (iteration s) 0 + 1), lastActivity := Some (now w)\<rparr>"
  let ?w2 = "w\<lparr>rlm_costs_file := c\<rparr>"
  let ?w3 = "w\<lparr>rlm_costs_file := c, state_file := Good ?s, state_mtime := now w\<rparr>"
  have lim: "checkIterationLimit (Some s) = None"
    using assms(5) by (rule falsy_limit_never_blocks)
  have fresh: "\<not> isStateStale ?w2"
    using assms(1,8) by (simp add: isStateStale_def)
  have e: "earlier_checks w =
     (case loop_check (readState w) (cost_notices w) ?w2 of
        Exit r \<Rightarrow> Exit r
      | Continue (st', out2, w3) \<Rightarrow>
          (case completion_check st' out2 w3 of
             Exit r \<Rightarrow> Exit r
           | Continue (out3, w4) \<Rightarrow> Continue (readPersistentTasks w, out3, w4)))"
    using earlier_checks_pass [OF assms(6,7)] c by simp
  show ?thesis
  proof (cases "getPhasePrompt ?s")
    case None
    have l: "loop_check (readState w) (cost_notices w) ?w2 =
               Continue (Some ?s, cost_notices w, ?w3)"
      using assms(1-4) lim fresh None
      by (simp add: loop_check_def readState_def writeState_def Let_def)
    have v: "completion_check (Some ?s) (cost_notices w) ?w3 = Continue (cost_notices w, ?w3)"
      using assms(2-4) by (simp add: completion_check_def)
    show ?thesis
      using e l v None c by (simp add: main_def)
  next
    case (Some p)
    have l: "loop_check (readState w) (cost_notices w) ?w2 =
               Exit \<lparr>r_exit = Exit2 (DeepLoopPhase (phase s)),
                     r_stdout = cost_notices w @ [p], r_world = ?w3\<rparr>"
      using assms(1-4) lim fresh Some
      by (simp add: loop_check_def readState_def writeState_def Let_def)
    show ?thesis
      using e l Some c by (simp add: main_def)
  qed
qed

lemma continue_phase_run:
  assumes "loop_running w s" and "maxIterations s \<in> {None, Some 0}"
    and "now w - state_mtime w \<le> STALE_THRESHOLD_MS"
  shows "main w =
     \<lparr>r_exit = Exit2 (DeepLoopPhase (phase s)),
      r_stdout = cost_notices w @
         [MsgPhasePrompt (phase s) (to_double (js_or (iteration s) 0 + 1)) (maxIterations s)],
      r_world = (snd (checkRlmCosts w))
         \<lparr>state_file := Good (s\<lparr>iteration := to_double (js_or (iteration s) 0 + 1),
                                lastActivity := Some (now w)\<rparr>),
          state_mtime := now w\<rparr>\<rparr>"
proof -
  have s: "state_file w = Good s" "\<not> complete s"
    "phase s \<in> set [''PLAN'', ''BUILD'', ''REVIEW'', ''FIX'']"
    "no_markers w" "\<not> cost_blocks w"
    using assms(1) by (simp_all add: loop_running_def)
  have ph: "phase s \<noteq> ''COMPLETE''" "phase s \<noteq> ''SHIP''"
    using s(3) by auto
  have p: "getPhasePrompt (s\<lparr>iteration := to_double (js_or (iteration s) 0 + 1),
                             lastActivity := Some (now w)\<rparr>) =
           Some (MsgPhasePrompt (phase s) (to_double (js_or (iteration s) 0 + 1)) (maxIterations s))"
    using s(3) by (auto simp add: getPhasePrompt_def)
  show ?thesis
    using increment_run [OF s(1,2) ph assms(2) s(4,5) assms(3)] p by simp
qed

lemma loop_running_next:
  assumes "loop_running w s"
  shows "loop_running
           ((snd (checkRlmCosts w))\<lparr>state_file := Good (s\<lparr>iteration := i, lastActivity := a\<rparr>),
                                    state_mtime := m\<rparr>)
           (s\<lparr>iteration := i, lastActivity := a\<rparr>)"
proof -
  obtain c where c: "snd (checkRlmCosts w) = w\<lparr>rlm_costs_file := c\<rparr>"
    using checkRlmCosts_world by blast
  have m: "c = Malformed \<longleftrightarrow> rlm_costs_file w = Malformed"
    using checkRlmCosts_Malformed [of w] c by simp
  have "\<not> cost_blocks (w\<lparr>rlm_costs_file := c,
            state_file := Good (s\<lparr>iteration := i, lastActivity := a\<rparr>), state_mtime := m\<rparr>)"
    using assms m by (simp add: loop_running_def cost_blocks_iff split: stored.splits)
  then show ?thesis
    using assms c by (simp add: loop_running_def no_markers_def)
qed

lemma loop_running_clock: "loop_running w s \<Longrightarrow> loop_running (w\<lparr>now := t\<rparr>) s"
  by (simp add: loop_running_def no_markers_def cost_blocks_iff split: stored.splits)

text \<open>Runs that follow one another within eight hours, while the count is exact.\<close>

lemma paced_runs:
  assumes "loop_running w s" and "maxIterations s \<in> {None, Some 0}"
    and "paced (state_mtime w) ts"
    and "- (2 ^ 53) \<le> js_or (iteration s) 0"
    and "js_or (iteration s) 0 + int (length ts) \<le> 2 ^ 53"
  shows "fst (evaluations ts w) = replicate (length ts) (Exit2 (DeepLoopPhase (phase s))) \<and>
         (\<exists>s'. state_file (snd (evaluations ts w)) = Good s' \<and>
               js_or (iteration s') 0 = js_or (iteration s) 0 + int (length ts))"
  using assms
proof (induction ts arbitrary: w s)
  case Nil
  then show ?case by (simp add: loop_running_def)
next
  case (Cons t ts)
  let ?i = "js_or (iteration s) 0"
  let ?w = "w\<lparr>now := t\<rparr>"
  let ?s = "s\<lparr>iteration := Some (?i + 1), lastActivity := Some t\<rparr>"
  let ?w' = "(snd (checkRlmCosts ?w))\<lparr>state_file := Good ?s, state_mtime := t\<rparr>"
  have "\<bar>?i + 1\<bar> \<le> 2 ^ 53"
    using Cons.prems(4,5) by simp
  then have exact: "to_double (?i + 1) = Some (?i + 1)"
    by (rule to_double_exact)
  have run: "loop_running ?w s"
    using Cons.prems(1) by (rule loop_running_clock)
  have fresh: "now ?w - state_mtime ?w \<le> STALE_THRESHOLD_MS"
    using Cons.prems(3) by simp
  have m: "main ?w =
     \<lparr>r_exit = Exit2 (DeepLoopPhase (phase s)),
      r_stdout = cost_notices ?w @ [MsgPhasePrompt (phase s) (Some (?i + 1)) (maxIterations s)],
      r_world = ?w'\<rparr>"
    using continue_phase_run [OF run Cons.prems(2) fresh] exact by simp
  have run': "loop_running ?w' ?s"
    using loop_running_next [OF run] by simp
  have p: "paced (state_mtime ?w') ts"
    using Cons.prems(3) by simp
  have mx: "maxIterations ?s \<in> {None, Some 0}"
    using Cons.prems(2) by simp
  have j: "js_or (iteration ?s) 0 = ?i + 1"
    by (simp add: js_or_def)
  have lo: "- (2 ^ 53) \<le> js_or (iteration ?s) 0"
    using Cons.prems(4) j by simp
  have hi: "js_or (iteration ?s) 0 + int (length ts) \<le> 2 ^ 53"
    using Cons.prems(5) j by simp
  have ih: "fst (evaluations ts ?w') = replicate (length ts) (Exit2 (DeepLoopPhase (phase ?s))) \<and>
         (\<exists>s'. state_file (snd (evaluations ts ?w')) = Good s' \<and>
               js_or (iteration s') 0 = js_or (iteration ?s) 0 + int (length ts))"
    using Cons.IH [OF run' mx p lo hi] .
  then obtain s' where s': "state_file (snd (evaluations ts ?w')) = Good s'"
    "js_or (iteration s') 0 = js_or (iteration ?s) 0 + int (length ts)"
    by blast
  have "js_or (iteration s') 0 = ?i + int (length (t # ts))"
    using s'(2) j by simp
  then show ?case
    using m ih s'(1) by (simp add: Let_def)
qed

section \<open>Changes of the world that a run does not see\<close>

lemma readState_after_cost: "readState (snd (checkRlmCosts w)) = readState w"
proof -
  obtain c where "snd (checkRlmCosts w) = w\<lparr>rlm_costs_file := c\<rparr>"
    using checkRlmCosts_world by blast
  then show ?thesis by (simp add: readState_def)
qed

lemma marker_checks_unread:
  assumes "unread U I" and "I w"
  shows "(case marker_checks w of
            Exit r \<Rightarrow> (\<exists>r'. marker_checks (U w) = Exit r' \<and> r_exit r' = r_exit r)
          | Continue w' \<Rightarrow> w' = w \<and> marker_checks (U w) = Continue (U w))"
proof -
  have "force_exit_file (U w) = force_exit_file w" "force_complete_file (U w) = force_complete_file w"
    "ralph_handoff_file (U w) = ralph_handoff_file w" "escalation_file (U w) = escalation_file w"
    using assms by (simp_all add: unread_def)
  then show ?thesis
    by (simp add: marker_checks_def shouldForceExit_def shouldForceComplete_def
        shouldRalphHandoff_def split: stored.splits)
qed

lemma cost_check_unread:
  assumes "unread U I" and "I w"
  shows "(case cost_check w of
            Exit r \<Rightarrow> (\<exists>r'. cost_check (U w) = Exit r' \<and> r_exit r' = r_exit r)
          | Continue (out, w') \<Rightarrow> w' = snd (checkRlmCosts w) \<and> cost_check (U w) = Continue (out, U w'))"
proof -
  have f: "fst (checkRlmCosts (U w)) = fst (checkRlmCosts w)"
    and s: "snd (checkRlmCosts (U w)) = U (snd (checkRlmCosts w))"
    using assms by (simp_all add: unread_def)
  obtain a b where ab: "checkRlmCosts w = (a, b)" by (cases "checkRlmCosts w")
  then have "checkRlmCosts (U w) = (a, U b)"
    using f s by (metis fst_conv snd_conv prod.collapse)
  then show ?thesis
    using ab by (simp add: cost_check_def split: rlm_check.splits)
qed

lemma loop_check_unread:
  assumes "unread U I" and "I w" and "readState w = st"
  shows "(case loop_check st out w of
            Exit r \<Rightarrow> (\<exists>r'. loop_check st out (U w) = Exit r' \<and> r_exit r' = r_exit r)
          | Continue (st', out', w') \<Rightarrow>
              loop_check st out (U w) = Continue (st', out', U w') \<and> I w' \<and> readState w' = st')"
proof (cases st)
  case None
  then show ?thesis using assms(2,3) by (simp add: loop_check_def)
next
  case (Some s)
  then have ne: "readState w \<noteq> None" using assms(3) by simp
  have stale: "isStateStale (U w) = isStateStale w" "now (U w) = now w"
    and wr: "\<And>s'. U (writeState s' w) = writeState s' (U w)" "\<And>s'. I (writeState s' w)"
    using assms(1,2) ne by (simp_all add: unread_def)
  have nw: "now (writeState s' v) = now v" "readState (writeState s' v) = Some s'" for s' v
    by (simp_all add: writeState_def readState_def)
  show ?thesis
    using Some assms(2,3) stale wr
    by (simp add: loop_check_def Let_def nw split: option.splits)
qed


lemma completion_check_unread:
  assumes "unread U I" and "I w" and "readState w = st"
  shows "(case completion_check st out w of
            Exit r \<Rightarrow> (\<exists>r'. completion_check st out (U w) = Exit r' \<and> r_exit r' = r_exit r)
          | Continue (out', w') \<Rightarrow> w' = w \<and> completion_check st out (U w) = Continue (out', U w))"
proof (cases st)
  case None
  then show ?thesis by (simp add: completion_check_def)
next
  case (Some s)
  then have ne: "readState w \<noteq> None" using assms(3) by simp
  have "checkValidationErrors (U w) = checkValidationErrors w"
    "valid (verifyTestResults (U w)) = valid (verifyTestResults w)"
    "skip (verifyGitResults (U w)) = skip (verifyGitResults w)"
    "valid (verifyGitResults (U w)) = valid (verifyGitResults w)"
    using assms(1,2) ne by (simp_all add: unread_def)
  then show ?thesis
    using Some by (simp add: completion_check_def Let_def split: option.splits)
qed

lemma backlog_check_unread:
  assumes "unread U I" and "I w"
  shows "r_exit (backlog_check td out (U w)) = r_exit (backlog_check td out w)"
proof -
  have p: "getPendingTasks (U w) td = getPendingTasks w td"
    and e: "\<And>tid. fst (checkUserEscalation tid (U w)) = fst (checkUserEscalation tid w)"
    using assms by (simp_all add: unread_def)
  show ?thesis
  proof (cases "current_task (getPendingTasks w td)")
    case None
    then show ?thesis using p by (simp add: backlog_check_def)
  next
    case (Some cur)
    obtain a b where ab: "checkUserEscalation (task_id cur) w = (a, b)"
      by (cases "checkUserEscalation (task_id cur) w")
    obtain a' b' where ab': "checkUserEscalation (task_id cur) (U w) = (a', b')"
      by (cases "checkUserEscalation (task_id cur) (U w)")
    have "a' = a" using e [of "task_id cur"] ab ab' by simp
    then show ?thesis
      using Some p ab ab' by (simp add: backlog_check_def Let_def split: option.splits)
  qed
qed

lemma main_unread:
  assumes u: "unread U I" and i: "I w"
  shows "r_exit (main (U w)) = r_exit (main w)"
proof -
  have rs: "readState (U w) = readState w" and rt: "readPersistentTasks (U w) = readPersistentTasks w"
    and i2: "I (snd (checkRlmCosts w))"
    using u i by (simp_all add: unread_def)
  show ?thesis
  proof (cases "marker_checks w")
    case (Exit r)
    then obtain r' where "marker_checks (U w) = Exit r'" "r_exit r' = r_exit r"
      using marker_checks_unread [OF u i] by auto
    then show ?thesis using Exit by (simp add: main_def earlier_checks_def)
  next
    case (Continue w')
    then have m: "marker_checks w = Continue w" "marker_checks (U w) = Continue (U w)"
      using marker_checks_unread [OF u i] by auto
    show ?thesis
    proof (cases "cost_check w")
      case (Exit r)
      then obtain r' where "cost_check (U w) = Exit r'" "r_exit r' = r_exit r"
        using cost_check_unread [OF u i] by auto
      then show ?thesis using Exit m by (simp add: main_def earlier_checks_def)
    next
      case (Continue x)
      obtain o1 w2 where x: "x = (o1, w2)" by (cases x)
      have c: "cost_check w = Continue (o1, w2)" "cost_check (U w) = Continue (o1, U w2)"
        and w2: "w2 = snd (checkRlmCosts w)"
        using cost_check_unread [OF u i] Continue x by auto
      have iw2: "I w2" using i2 w2 by simp
      have rw2: "readState w2 = readState w" using w2 readState_after_cost by simp
      show ?thesis
      proof (cases "loop_check (readState w) o1 w2")
        case (Exit r)
        then obtain r' where "loop_check (readState w) o1 (U w2) = Exit r'" "r_exit r' = r_exit r"
          using loop_check_unread [OF u iw2 rw2, of o1] by auto
        then show ?thesis using Exit m c rs by (simp add: main_def earlier_checks_def)
      next
        case (Continue y)
        obtain st o2 w3 where y: "y = (st, o2, w3)" by (cases y)
        have l: "loop_check (readState w) o1 w2 = Continue (st, o2, w3)"
          "loop_check (readState w) o1 (U w2) = Continue (st, o2, U w3)"
          and iw3: "I w3" and rw3: "readState w3 = st"
          using loop_check_unread [OF u iw2 rw2, of o1] Continue y by auto
        show ?thesis
        proof (cases "completion_check st o2 w3")
          case (Exit r)
          then obtain r' where "completion_check st o2 (U w3) = Exit r'" "r_exit r' = r_exit r"
            using completion_check_unread [OF u iw3 rw3, of o2] by auto
          then show ?thesis using Exit m c l rs by (simp add: main_def earlier_checks_def)
        next
          case (Continue z)
          obtain o3 w4 where z: "z = (o3, w4)" by (cases z)
          have v: "completion_check st o2 w3 = Continue (o3, w3)"
            "completion_check st o2 (U w3) = Continue (o3, U w3)"
            using completion_check_unread [OF u iw3 rw3, of o2] Continue z by auto
          have "r_exit (backlog_check (readPersistentTasks w) o3 (U w3)) =
                r_exit (backlog_check (readPersistentTasks w) o3 w3)"
            using u iw3 by (rule backlog_check_unread)
          then show ?thesis using m c l v rs rt by (simp add: main_def earlier_checks_def)
        qed
      qed
    qed
  qed
qed

text \<open>Replacing a missing record by an unreadable one is such a change, for each record.\<close>

lemma checkRlmCosts_frame:
  "checkRlmCosts (w\<lparr>state_file := a\<rparr>) = (fst (checkRlmCosts w), (snd (checkRlmCosts w))\<lparr>state_file := a\<rparr>)"
  "checkRlmCosts (w\<lparr>test_results_file := b\<rparr>) = (fst (checkRlmCosts w), (snd (checkRlmCosts w))\<lparr>test_results_file := b\<rparr>)"
  "checkRlmCosts (w\<lparr>git_results_file := c\<rparr>) = (fst (checkRlmCosts w), (snd (checkRlmCosts w))\<lparr>git_results_file := c\<rparr>)"
  "checkRlmCosts (w\<lparr>validation_state_file := d\<rparr>) = (fst (checkRlmCosts w), (snd (checkRlmCosts w))\<lparr>validation_state_file := d\<rparr>)"
  "checkRlmCosts (w\<lparr>persistent_tasks_file := e\<rparr>) = (fst (checkRlmCosts w), (snd (checkRlmCosts w))\<lparr>persistent_tasks_file := e\<rparr>)"
  "checkRlmCosts (w\<lparr>failure_file := f\<rparr>) = (fst (checkRlmCosts w), (snd (checkRlmCosts w))\<lparr>failure_file := f\<rparr>)"
  "checkRlmCosts (w\<lparr>lock_file := g\<rparr>) = (fst (checkRlmCosts w), (snd (checkRlmCosts w))\<lparr>lock_file := g\<rparr>)"
  by (cases "rlm_context_file w"; cases "rlm_costs_file w";
      simp add: checkRlmCosts_def Let_def)+

lemma checkRlmCosts_keeps:
  "state_file (snd (checkRlmCosts w)) = state_file w"
  "test_results_file (snd (checkRlmCosts w)) = test_results_file w"
  "git_results_file (snd (checkRlmCosts w)) = git_results_file w"
  "validation_state_file (snd (checkRlmCosts w)) = validation_state_file w"
  "persistent_tasks_file (snd (checkRlmCosts w)) = persistent_tasks_file w"
  "failure_file (snd (checkRlmCosts w)) = failure_file w"
  "rlm_context_file (snd (checkRlmCosts w)) = rlm_context_file w"
  "lock_file (snd (checkRlmCosts w)) = lock_file w"
  by (cases "rlm_context_file w"; cases "rlm_costs_file w";
      simp add: checkRlmCosts_def Let_def)+

lemma checkValidationErrors_other:
  "checkValidationErrors (w\<lparr>state_file := a\<rparr>) = checkValidationErrors w"
  "checkValidationErrors (w\<lparr>test_results_file := b\<rparr>) = checkValidationErrors w"
  "checkValidationErrors (w\<lparr>git_results_file := c\<rparr>) = checkValidationErrors w"
  "checkValidationErrors (w\<lparr>persistent_tasks_file := e\<rparr>) = checkValidationErrors w"
  "checkValidationErrors (w\<lparr>failure_file := f\<rparr>) = checkValidationErrors w"
  "checkValidationErrors (w\<lparr>rlm_context_file := h\<rparr>) = checkValidationErrors w"
  "checkValidationErrors (w\<lparr>lock_file := g\<rparr>) = checkValidationErrors w"
  by (rule checkValidationErrors_frame; simp)+

lemma getPendingTasks_other:
  "getPendingTasks (w\<lparr>state_file := a\<rparr>) td = getPendingTasks w td"
  "getPendingTasks (w\<lparr>test_results_file := b\<rparr>) td = getPendingTasks w td"
  "getPendingTasks (w\<lparr>git_results_file := c\<rparr>) td = getPendingTasks w td"
  "getPendingTasks (w\<lparr>validation_state_file := d\<rparr>) td = getPendingTasks w td"
  "getPendingTasks (w\<lparr>persistent_tasks_file := e\<rparr>) td = getPendingTasks w td"
  "getPendingTasks (w\<lparr>failure_file := f\<rparr>) td = getPendingTasks w td"
  "getPendingTasks (w\<lparr>rlm_context_file := h\<rparr>) td = getPendingTasks w td"
  "getPendingTasks (w\<lparr>lock_file := g\<rparr>) td = getPendingTasks w td"
  by (rule getPendingTasks_now; simp)+

lemma isStateStale_other:
  "isStateStale (w\<lparr>test_results_file := b\<rparr>) = isStateStale w"
  "isStateStale (w\<lparr>git_results_file := c\<rparr>) = isStateStale w"
  "isStateStale (w\<lparr>validation_state_file := d\<rparr>) = isStateStale w"
  "isStateStale (w\<lparr>persistent_tasks_file := e\<rparr>) = isStateStale w"
  "isStateStale (w\<lparr>failure_file := f\<rparr>) = isStateStale w"
  "isStateStale (w\<lparr>rlm_context_file := h\<rparr>) = isStateStale w"
  "isStateStale (w\<lparr>lock_file := g\<rparr>) = isStateStale w"
  by (cases "state_file w"; simp add: isStateStale_def)+

lemma checkUserEscalation_other:
  "fst (checkUserEscalation tid (w\<lparr>state_file := a\<rparr>)) = fst (checkUserEscalation tid w)"
  "fst (checkUserEscalation tid (w\<lparr>test_results_file := b\<rparr>)) = fst (checkUserEscalation tid w)"
  "fst (checkUserEscalation tid (w\<lparr>git_results_file := c\<rparr>)) = fst (checkUserEscalation tid w)"
  "fst (checkUserEscalation tid (w\<lparr>validation_state_file := d\<rparr>)) = fst (checkUserEscalation tid w)"
  "fst (checkUserEscalation tid (w\<lparr>persistent_tasks_file := e\<rparr>)) = fst (checkUserEscalation tid w)"
  "fst (checkUserEscalation tid (w\<lparr>rlm_context_file := h\<rparr>)) = fst (checkUserEscalation tid w)"
  "fst (checkUserEscalation tid (w\<lparr>lock_file := g\<rparr>)) = fst (checkUserEscalation tid w)"
  by (simp_all add: checkUserEscalation_def split: stored.splits option.splits)

lemmas other_simps =
  checkRlmCosts_frame checkRlmCosts_keeps checkValidationErrors_other getPendingTasks_other
  isStateStale_other checkUserEscalation_other
  readState_def readPersistentTasks_def writeState_def verifyTestResults_def verifyGitResults_def

lemma unread_state:
  "unread (\<lambda>w. w\<lparr>state_file := Malformed\<rparr>) (\<lambda>w. state_file w = Missing)"
  unfolding unread_def by (simp add: other_simps)

lemma unread_tests:
  "unread (\<lambda>w. w\<lparr>test_results_file := Malformed\<rparr>) (\<lambda>w. test_results_file w = Missing)"
  unfolding unread_def by (simp add: other_simps)

lemma unread_git:
  "unread (\<lambda>w. w\<lparr>git_results_file := Malformed\<rparr>) (\<lambda>w. git_results_file w = Missing)"
  unfolding unread_def by (simp add: other_simps)

lemma unread_validation:
  "unread (\<lambda>w. w\<lparr>validation_state_file := Malformed\<rparr>)
          (\<lambda>w. validation_state_file w = Missing)"
  unfolding unread_def by (simp add: other_simps checkValidationErrors_def)

lemma unread_tasks:
  "unread (\<lambda>w. w\<lparr>persistent_tasks_file := Malformed\<rparr>)
          (\<lambda>w. persistent_tasks_file w = Missing)"
  unfolding unread_def by (simp add: other_simps)

lemma unread_failures:
  "unread (\<lambda>w. w\<lparr>failure_file := Malformed\<rparr>) (\<lambda>w. failure_file w = Missing)"
  unfolding unread_def by (simp add: other_simps checkUserEscalation_def)

lemma unread_context:
  "unread (\<lambda>w. w\<lparr>rlm_context_file := Malformed\<rparr>) (\<lambda>w. rlm_context_file w = Missing)"
  unfolding unread_def by (simp add: other_simps checkRlmCosts_def)

lemma unread_lock:
  "unread (\<lambda>w. w\<lparr>lock_file := Malformed\<rparr>) (\<lambda>w. lock_file w = Missing)"
  unfolding unread_def by (simp add: other_simps)

section \<open>The force-exit override\<close>

text \<open>
  C6. Whenever the force-exit marker is present, the run exits with code 0 and deletes
  the marker, whatever the other signals are: nothing else is read or written.
\<close>

theorem force_exit_allows:
  assumes "force_exit_file w"
  shows "r_exit (main w) = Exit0 \<and> exit_code (r_exit (main w)) = 0 \<and>
         r_stdout (main w) = [MsgForceExit] \<and>
         r_world (main w) = w\<lparr>force_exit_file := False\<rparr> \<and>
         \<not> force_exit_file (r_world (main w))"
  using assms
  by (simp add: main_def earlier_checks_def marker_checks_def shouldForceExit_def)

text \<open>
  A world with the marker, an escalation marker, a completed session whose tests
  fail, a fresh validation error and a pending task that has failed three times.
\<close>

theorem force_exit_allows_witness:
  "force_exit_file
     (quiet_world\<lparr>force_exit_file := True,
        escalation_file := Good \<lparr>taskId = ''t1'', failures = 3, esc_errors = [], esc_createdAt = 0\<rparr>,
        state_file := Good ship_state,
        test_results_file := Good (passing_tests\<lparr>r_tests := Some \<lparr>ran = True, passed = False\<rparr>,
                                                 allPassed := False\<rparr>),
        validation_state_file := Good (validation_with_error 99999000),
        persistent_tasks_file := Good \<lparr>staleThresholdHours = None,
                                        tasks = [sample_task ''t1'' ''pending'' 99000000]\<rparr>,
        failure_file := Good (failures_of ''t1'' 3)\<rparr>) \<and>
   exit_code (r_exit (main
     (quiet_world\<lparr>force_exit_file := True,
        escalation_file := Good \<lparr>taskId = ''t1'', failures = 3, esc_errors = [], esc_createdAt = 0\<rparr>,
        state_file := Good ship_state,
        test_results_file := Good (passing_tests\<lparr>r_tests := Some \<lparr>ran = True, passed = False\<rparr>,
                                                 allPassed := False\<rparr>),
        validation_state_file := Good (validation_with_error 99999000),
        persistent_tasks_file := Good \<lparr>staleThresholdHours = None,
                                        tasks = [sample_task ''t1'' ''pending'' 99000000]\<rparr>,
        failure_file := Good (failures_of ''t1'' 3)\<rparr>))) = 0 \<and>
   \<not> force_exit_file (r_world (main
     (quiet_world\<lparr>force_exit_file := True,
        escalation_file := Good \<lparr>taskId = ''t1'', failures = 3, esc_errors = [], esc_createdAt = 0\<rparr>,
        state_file := Good ship_state,
        test_results_file := Good (passing_tests\<lparr>r_tests := Some \<lparr>ran = True, passed = False\<rparr>,
                                                 allPassed := False\<rparr>),
        validation_state_file := Good (validation_with_error 99999000),
        persistent_tasks_file := Good \<lparr>staleThresholdHours = None,
                                        tasks = [sample_task ''t1'' ''pending'' 99000000]\<rparr>,
        failure_file := Good (failures_of ''t1'' 3)\<rparr>)))"
  using force_exit_allows
    [of "quiet_world\<lparr>force_exit_file := True,
        escalation_file := Good \<lparr>taskId = ''t1'', failures = 3, esc_errors = [], esc_createdAt = 0\<rparr>,
        state_file := Good ship_state,
        test_results_file := Good (passing_tests\<lparr>r_tests := Some \<lparr>ran = True, passed = False\<rparr>,
                                                 allPassed := False\<rparr>),
        validation_state_file := Good (validation_with_error 99999000),
        persistent_tasks_file := Good \<lparr>staleThresholdHours = None,
                                        tasks = [sample_task ''t1'' ''pending'' 99000000]\<rparr>,
        failure_file := Good (failures_of ''t1'' 3)\<rparr>"]
  by simp

section \<open>The lock\<close>

text \<open>
  C9. For a readable lock held by \<open>agentId l\<close> and acquired at \<open>t\<close>: while its age is
  below the five-minute timeout, acquiring returns not-acquired with the holder's id
  and the age and writes nothing; otherwise acquiring succeeds and overwrites the
  record with the caller's id. Releasing deletes the lock exactly when the caller's
  id is the holder's.
\<close>

theorem lock_acquire_release:
  assumes "lock_file w = Good l" and "acquiredAt l = Some t"
  shows "LOCK_TIMEOUT_MS = 300000 \<and>
         acquireLock w =
           (if now w - t < LOCK_TIMEOUT_MS then (NotAcquired (agentId l) (now w - t), w)
            else (Acquired, w\<lparr>lock_file := Good \<lparr>agentId = pid w, acquiredAt = Some (now w)\<rparr>\<rparr>)) \<and>
         releaseLock w = (if agentId l = pid w then w\<lparr>lock_file := Missing\<rparr> else w)"
  using assms by (simp add: acquireLock_def releaseLock_def LOCK_TIMEOUT_MS_def)

text \<open>
  Agent 4242 meets the lock of agent 7: one minute old, then six minutes old; and
  agent 7 releases its own lock.
\<close>

theorem lock_acquire_release_witness:
  "acquireLock (quiet_world\<lparr>lock_file := Good \<lparr>agentId = ''7'', acquiredAt = Some 99940000\<rparr>\<rparr>) =
     (NotAcquired ''7'' 60000,
      quiet_world\<lparr>lock_file := Good \<lparr>agentId = ''7'', acquiredAt = Some 99940000\<rparr>\<rparr>) \<and>
   acquireLock (quiet_world\<lparr>lock_file := Good \<lparr>agentId = ''7'', acquiredAt = Some 99640000\<rparr>\<rparr>) =
     (Acquired,
      quiet_world\<lparr>lock_file := Good \<lparr>agentId = ''4242'', acquiredAt = Some 100000000\<rparr>\<rparr>) \<and>
   releaseLock (quiet_world\<lparr>lock_file := Good \<lparr>agentId = ''7'', acquiredAt = Some 99940000\<rparr>\<rparr>) =
     quiet_world\<lparr>lock_file := Good \<lparr>agentId = ''7'', acquiredAt = Some 99940000\<rparr>\<rparr> \<and>
   releaseLock (quiet_world\<lparr>pid := ''7'',
                  lock_file := Good \<lparr>agentId = ''7'', acquiredAt = Some 99940000\<rparr>\<rparr>) =
     quiet_world\<lparr>pid := ''7'', lock_file := Missing\<rparr>"
  using
    lock_acquire_release
      [of "quiet_world\<lparr>lock_file := Good \<lparr>agentId = ''7'', acquiredAt = Some 99940000\<rparr>\<rparr>"
          "\<lparr>agentId = ''7'', acquiredAt = Some 99940000\<rparr>" 99940000]
    lock_acquire_release
      [of "quiet_world\<lparr>lock_file := Good \<lparr>agentId = ''7'', acquiredAt = Some 99640000\<rparr>\<rparr>"
          "\<lparr>agentId = ''7'', acquiredAt = Some 99640000\<rparr>" 99640000]
    lock_acquire_release
      [of "quiet_world\<lparr>pid := ''7'',
             lock_file := Good \<lparr>agentId = ''7'', acquiredAt = Some 99940000\<rparr>\<rparr>"
          "\<lparr>agentId = ''7'', acquiredAt = Some 99940000\<rparr>" 99940000]
  by (simp add: quiet_world_def)

section \<open>The iteration limit\<close>

text \<open>
  C1, as the code has it. For a session that is not complete, in a phase other than
  COMPLETE and SHIP, whose limit is not zero and whose iteration has reached the limit,
  whose state file was written at most eight hours ago, with no override or readable
  escalation marker and the cost check not blocking: the run exits with code 2 and the
  iteration-limit text, and the state file is left as it was.
\<close>

theorem iteration_limit_blocks:
  assumes "state_file w = Good s" and "\<not> complete s"
    and "phase s \<noteq> ''COMPLETE''" and "phase s \<noteq> ''SHIP''"
    and "iteration s = Some i" and "maxIterations s = Some mx" and "mx \<noteq> 0" and "mx \<le> i"
    and "now w - state_mtime w \<le> STALE_THRESHOLD_MS"
    and "no_markers w" and "\<not> cost_blocks w"
  shows "r_exit (main w) = Exit2 IterationLimitReached \<and>
         exit_code (r_exit (main w)) = 2 \<and>
         r_stdout (main w) = cost_notices w @ [MsgIterationLimit i mx] \<and>
         state_file (r_world (main w)) = Good s"
proof -
  obtain c where c: "snd (checkRlmCosts w) = w\<lparr>rlm_costs_file := c\<rparr>"
    using checkRlmCosts_world by blast
  have "loop_check (readState w) (cost_notices w) (w\<lparr>rlm_costs_file := c\<rparr>) =
        Exit \<lparr>r_exit = Exit2 IterationLimitReached,
              r_stdout = cost_notices w @ [MsgIterationLimit i mx],
              r_world = w\<lparr>rlm_costs_file := c\<rparr>\<rparr>"
    using assms(1-9)
    by (auto simp add: loop_check_def readState_def isStateStale_def checkIterationLimit_def js_or_def)
  then show ?thesis
    using assms(1,10,11) c by (simp add: main_def earlier_checks_pass)
qed

text \<open>A BUILD session at iteration 10 of 10, written just now.\<close>

theorem iteration_limit_blocks_witness:
  "r_exit (main (quiet_world\<lparr>state_file := Good (build_state 10 (Some 10))\<rparr>))
     = Exit2 IterationLimitReached \<and>
   r_stdout (main (quiet_world\<lparr>state_file := Good (build_state 10 (Some 10))\<rparr>))
     = [MsgIterationLimit 10 10] \<and>
   state_file (r_world (main (quiet_world\<lparr>state_file := Good (build_state 10 (Some 10))\<rparr>)))
     = Good (build_state 10 (Some 10))"
  using iteration_limit_blocks
    [of "quiet_world\<lparr>state_file := Good (build_state 10 (Some 10))\<rparr>"
        "build_state 10 (Some 10)" 10 10]
  by (simp add: sample_defs no_markers_def cost_blocks_def cost_notices_def checkRlmCosts_def
      STALE_THRESHOLD_MS_def)

text \<open>
  Stated for every incomplete session at its limit with no marker, C1 fails: a stale
  session is let go, a session in phase SHIP goes to completion verification, a limit
  of zero is no limit, and the cost check comes first.
\<close>

theorem iteration_limit_counterexample:
  "no_markers (quiet_world\<lparr>state_file := Good (build_state 10 (Some 10)), state_mtime := 67600000\<rparr>) \<and>
   r_exit (main (quiet_world\<lparr>state_file := Good (build_state 10 (Some 10)),
                              state_mtime := 67600000\<rparr>)) = Exit0 \<and>
   r_exit (main (quiet_world\<lparr>state_file := Good ((build_state 10 (Some 10))\<lparr>phase := ''SHIP''\<rparr>)\<rparr>))
     = Exit2 TestVerificationFailed \<and>
   main (quiet_world\<lparr>state_file := Good (build_state 0 (Some 0))\<rparr>) =
     \<lparr>r_exit = Exit2 (DeepLoopPhase ''BUILD''),
      r_stdout = [MsgPhasePrompt ''BUILD'' (Some 1) (Some 0)],
      r_world = quiet_world\<lparr>state_file := Good (build_state 1 (Some 0))\<rparr>\<rparr> \<and>
   r_exit (main (quiet_world\<lparr>state_file := Good (build_state 10 (Some 10)),
                   rlm_context_file := Good \<lparr>sub_calls = Some 50, cost_estimate = None\<rparr>\<rparr>))
     = Exit2 CostLimitReached"
  by (simp add: hook_defs sample_defs)

section \<open>Staleness\<close>

text \<open>
  C4, as the code has it. For a session that is not complete, in a phase other than
  COMPLETE and SHIP, whose state file was modified more than eight hours ago, with no
  override or readable escalation marker, the cost check not blocking and no pending
  task in the backlog: the run exits with code 0 after the staleness notice, skipping
  the iteration check and the phase prompt, and the state file is not rewritten.
\<close>

theorem stale_session_allows:
  assumes "state_file w = Good s" and "\<not> complete s"
    and "phase s \<noteq> ''COMPLETE''" and "phase s \<noteq> ''SHIP''"
    and "now w - state_mtime w > STALE_THRESHOLD_MS"
    and "no_markers w" and "\<not> cost_blocks w"
    and "getPendingTasks w (readPersistentTasks w) = []"
  shows "STALE_THRESHOLD_MS = 28800000 \<and>
         r_exit (main w) = Exit0 \<and> exit_code (r_exit (main w)) = 0 \<and>
         r_stdout (main w) = cost_notices w @ [MsgStale, MsgExitAllowed] \<and>
         state_file (r_world (main w)) = Good s \<and>
         state_mtime (r_world (main w)) = state_mtime w"
proof -
  obtain c where c: "snd (checkRlmCosts w) = w\<lparr>rlm_costs_file := c\<rparr>"
    using checkRlmCosts_world by blast
  let ?w2 = "w\<lparr>rlm_costs_file := c\<rparr>"
  have l: "loop_check (readState w) (cost_notices w) ?w2 =
        Continue (Some s, cost_notices w @ [MsgStale], ?w2)"
    using assms(1-5)
    by (simp add: loop_check_def readState_def isStateStale_def)
  have v: "completion_check (Some s) (cost_notices w @ [MsgStale]) ?w2 =
        Continue (cost_notices w @ [MsgStale], ?w2)"
    using assms(2-4) by (simp add: completion_check_def)
  have p: "getPendingTasks ?w2 (readPersistentTasks w) = []"
    using assms(8) getPendingTasks_now [of ?w2 w] by simp
  have b: "backlog_check (readPersistentTasks w) (cost_notices w @ [MsgStale]) ?w2 =
        \<lparr>r_exit = Exit0, r_stdout = cost_notices w @ [MsgStale, MsgExitAllowed],
         r_world = releaseLock ?w2\<rparr>"
    using p by (simp add: backlog_check_def current_task_def)
  have "main w = \<lparr>r_exit = Exit0, r_stdout = cost_notices w @ [MsgStale, MsgExitAllowed],
         r_world = releaseLock ?w2\<rparr>"
    using assms(6,7) c l v b by (simp add: main_def earlier_checks_pass)
  then show ?thesis
    using assms(1) by (simp add: releaseLock_def STALE_THRESHOLD_MS_def split: stored.splits)
qed

text \<open>A BUILD session at iteration 3 of 10 whose file is nine hours old.\<close>

theorem stale_session_allows_witness:
  "main (quiet_world\<lparr>state_file := Good (build_state 3 (Some 10)), state_mtime := 67600000\<rparr>) =
     \<lparr>r_exit = Exit0, r_stdout = [MsgStale, MsgExitAllowed],
      r_world = quiet_world\<lparr>state_file := Good (build_state 3 (Some 10)),
                            state_mtime := 67600000\<rparr>\<rparr>"
  using stale_session_allows
    [of "quiet_world\<lparr>state_file := Good (build_state 3 (Some 10)), state_mtime := 67600000\<rparr>"
        "build_state 3 (Some 10)"]
  by (simp add: hook_defs sample_defs)

text \<open>
  Staleness is the age of the file, not of the \<^verbatim>\<open>lastActivity\<close> field: a session
  whose \<^verbatim>\<open>lastActivity\<close> is nine hours old in a file touched a minute ago is
  continued and its iteration incremented. And a stale session with a pending task is
  blocked by the backlog.
\<close>

theorem stale_session_counterexample:
  "main (quiet_world\<lparr>state_file := Good ((build_state 3 (Some 10))\<lparr>lastActivity := Some 67600000\<rparr>),
                     state_mtime := 99940000\<rparr>) =
     \<lparr>r_exit = Exit2 (DeepLoopPhase ''BUILD''),
      r_stdout = [MsgPhasePrompt ''BUILD'' (Some 4) (Some 10)],
      r_world = quiet_world\<lparr>state_file := Good (build_state 4 (Some 10))\<rparr>\<rparr> \<and>
   r_exit (main (quiet_world\<lparr>state_file := Good (build_state 3 (Some 10)), state_mtime := 67600000,
                   persistent_tasks_file := Good \<lparr>staleThresholdHours = None,
                      tasks = [sample_task ''t1'' ''pending'' 99000000]\<rparr>\<rparr>))
     = Exit2 (TasksRemaining 1)"
  by (simp add: hook_defs sample_defs)

section \<open>Validation errors\<close>

lemma group_by_file_Some:
  "\<forall>x \<in> set es. file_key x \<notin> set object_prototype_members
     \<Longrightarrow> \<exists>grouped. group_by_file es groups = Some grouped"
  by (induction es arbitrary: groups) simp_all

text \<open>
  C3, as the code has it. For a complete session in phase SHIP and a validation state
  with an error whose timestamp lies within the last hour, the files of the errors of
  the last hour not being named like a member of \<^verbatim>\<open>Object.prototype\<close>, with no override
  or readable escalation marker and the cost check not blocking: the run exits with
  code 2, prints the recent errors, and rewrites the state to phase FIX and not
  complete.
\<close>

theorem validation_errors_block:
  assumes "state_file w = Good s" and "complete s" and "phase s = ''SHIP''"
    and "validation_state_file w = Good v"
    and "e \<in> set (v_errors v)" and "recent_error w e"
    and "\<forall>x \<in> set (v_errors v). recent_error w x \<longrightarrow> file_key x \<notin> set object_prototype_members"
    and "no_markers w" and "\<not> cost_blocks w"
  shows "r_exit (main w) = Exit2 ValidationErrorsPending \<and>
         exit_code (r_exit (main w)) = 2 \<and>
         state_file (r_world (main w)) = Good (s\<lparr>phase := ''FIX'', complete := False\<rparr>) \<and>
         (\<exists>errs. e \<in> set errs \<and> r_stdout (main w) = cost_notices w @ [MsgValidationErrors errs])"
proof -
  obtain c where c: "snd (checkRlmCosts w) = w\<lparr>rlm_costs_file := c\<rparr>"
    using checkRlmCosts_world by blast
  let ?w2 = "w\<lparr>rlm_costs_file := c\<rparr>"
  define recent where
    "recent = filter (\<lambda>e. case ve_timestamp e of None \<Rightarrow> False
                          | Some t \<Rightarrow> t > now w - 60 * 60 * 1000) (v_errors v)"
  have mem: "e \<in> set recent"
    using assms(5,6) by (simp add: recent_def recent_error_def)
  then have ne: "length recent \<noteq> 0"
    by auto
  have "\<forall>x \<in> set recent. file_key x \<notin> set object_prototype_members"
    using assms(7) by (simp add: recent_def recent_error_def)
  then obtain grouped where g: "group_by_file recent Map.empty = Some grouped"
    using group_by_file_Some by blast
  let ?report = "\<lparr>errorCount = length recent, byFile = grouped,
                  report_message = MsgValidationErrors recent\<rparr>"
  have "checkValidationErrors w =
          (if length recent = 0 then None
           else (case group_by_file recent Map.empty of
                   None \<Rightarrow> None
                 | Some grouped \<Rightarrow>
                     Some \<lparr>errorCount = length recent, byFile = grouped,
                           report_message = MsgValidationErrors recent\<rparr>))"
    using assms(4) unfolding recent_def checkValidationErrors_def Let_def
    by (simp cong: option.case_cong)
  then have "checkValidationErrors w = Some ?report"
    using ne g by simp
  then have chk: "checkValidationErrors ?w2 = Some ?report"
    using checkValidationErrors_frame [of ?w2 w] by simp
  have l: "loop_check (readState w) (cost_notices w) ?w2 =
        Continue (Some s, cost_notices w, ?w2)"
    using assms(1-3) by (simp add: loop_check_def readState_def)
  have v: "completion_check (Some s) (cost_notices w) ?w2 =
        Exit \<lparr>r_exit = Exit2 ValidationErrorsPending,
              r_stdout = cost_notices w @ [MsgValidationErrors recent],
              r_world = writeState (s\<lparr>phase := ''FIX'', complete := False\<rparr>) ?w2\<rparr>"
    using assms(2) chk by (simp add: completion_check_def)
  have "main w = \<lparr>r_exit = Exit2 ValidationErrorsPending,
              r_stdout = cost_notices w @ [MsgValidationErrors recent],
              r_world = writeState (s\<lparr>phase := ''FIX'', complete := False\<rparr>) ?w2\<rparr>"
    using assms(8,9) c l v by (simp add: main_def earlier_checks_pass)
  then show ?thesis
    using mem by (simp add: writeState_def)
qed

text \<open>A completed SHIP session with an error recorded a second ago.\<close>

theorem validation_errors_block_witness:
  "r_exit (main (quiet_world\<lparr>state_file := Good ship_state,
                   validation_state_file := Good (validation_with_error 99999000)\<rparr>))
     = Exit2 ValidationErrorsPending \<and>
   state_file (r_world (main (quiet_world\<lparr>state_file := Good ship_state,
                   validation_state_file := Good (validation_with_error 99999000)\<rparr>)))
     = Good (ship_state\<lparr>phase := ''FIX'', complete := False\<rparr>)"
  using validation_errors_block
    [of "quiet_world\<lparr>state_file := Good ship_state,
           validation_state_file := Good (validation_with_error 99999000)\<rparr>"
        ship_state "validation_with_error 99999000"
        "\<lparr>ve_file = Some ''data.json'', ve_message = ''Unexpected token'',
          ve_line = Some 3, ve_timestamp = Some 99999000\<rparr>"]
  by (simp add: hook_defs sample_defs recent_error_def)

text \<open>
  An error entry two hours old is filtered out: with passing tests the run exits with
  code 0 and the state stays complete. So it does with an error a second old in a file
  named \<^verbatim>\<open>constructor\<close>, where grouping the errors throws.
\<close>

theorem validation_errors_counterexample:
  "v_errors (validation_with_error 92800000) \<noteq> [] \<and>
   main (quiet_world\<lparr>state_file := Good ship_state,
           validation_state_file := Good (validation_with_error 92800000),
           test_results_file := Good passing_tests\<rparr>) =
     \<lparr>r_exit = Exit0, r_stdout = [MsgExitAllowed],
      r_world = quiet_world\<lparr>state_file := Good ship_state,
           validation_state_file := Good (validation_with_error 92800000),
           test_results_file := Good passing_tests\<rparr>\<rparr> \<and>
   main (quiet_world\<lparr>state_file := Good ship_state,
           validation_state_file := Good
             \<lparr>v_errors = [\<lparr>ve_file = Some ''constructor'', ve_message = ''Unexpected token'',
                           ve_line = Some 3, ve_timestamp = Some 99999000\<rparr>],
              filesValidated = 1\<rparr>,
           test_results_file := Good passing_tests\<rparr>) =
     \<lparr>r_exit = Exit0, r_stdout = [MsgExitAllowed],
      r_world = quiet_world\<lparr>state_file := Good ship_state,
           validation_state_file := Good
             \<lparr>v_errors = [\<lparr>ve_file = Some ''constructor'', ve_message = ''Unexpected token'',
                           ve_line = Some 3, ve_timestamp = Some 99999000\<rparr>],
              filesValidated = 1\<rparr>,
           test_results_file := Good passing_tests\<rparr>\<rparr>"
  by (simp add: hook_defs sample_defs)

section \<open>Git verification\<close>

text \<open>
  C5, as the code has it. For a complete session in phase SHIP, test results in which
  the four categories ran and passed and \<^verbatim>\<open>allPassed\<close> is set, git results of a
  repository with the gh CLI that require a pull request none of which is created, no
  recent validation error, no override or readable escalation marker and the cost check
  not blocking: the run exits with code 2, names the missing pull request, and rewrites
  the state to phase REVIEW and not complete.
\<close>

theorem git_incomplete_blocks:
  assumes "state_file w = Good s" and "complete s" and "phase s = ''SHIP''"
    and "test_results_file w = Good tr"
    and "category_ok (r_tests tr)" and "category_ok (r_types tr)"
    and "category_ok (r_lint tr)" and "category_ok (r_build tr)" and "allPassed tr"
    and "git_results_file w = Good g" and "isGitRepo g" and "hasGhCli g"
    and "requirePR g = Some True" and "\<not> pr_created g"
    and "checkValidationErrors w = None" and "no_markers w" and "\<not> cost_blocks w"
  shows "r_exit (main w) = Exit2 GitVerificationFailed \<and>
         exit_code (r_exit (main w)) = 2 \<and>
         state_file (r_world (main w)) = Good (s\<lparr>phase := ''REVIEW'', complete := False\<rparr>) \<and>
         (\<exists>ms fs. ''PR not created'' \<in> set ms \<and>
            r_stdout (main w) = cost_notices w @ [MsgGitIncomplete ms fs])"
proof -
  obtain c where c: "snd (checkRlmCosts w) = w\<lparr>rlm_costs_file := c\<rparr>"
    using checkRlmCosts_world by blast
  let ?w2 = "w\<lparr>rlm_costs_file := c\<rparr>"
  have l: "loop_check (readState w) (cost_notices w) ?w2 =
        Continue (Some s, cost_notices w, ?w2)"
    using assms(1-3) by (simp add: loop_check_def readState_def)
  have chk: "checkValidationErrors ?w2 = None"
    using assms(15) checkValidationErrors_frame [of ?w2 w] by simp
  have "valid (verifyTestResults w)"
    using assms(4-9)
    by (auto simp add: verifyTestResults_def check_category_def category_ok_def Let_def
        split: option.splits)
  then have tv: "valid (verifyTestResults ?w2)"
    using verifyTestResults_frame [of ?w2 w] by simp
  obtain ms fs where g: "verifyGitResults w = \<lparr>valid = False, skip = False, missing = ms, failed = fs\<rparr>"
    and pr: "''PR not created'' \<in> set ms"
    using assms(10-14) by (simp add: verifyGitResults_def Let_def)
  have gv: "verifyGitResults ?w2 = \<lparr>valid = False, skip = False, missing = ms, failed = fs\<rparr>"
    using g verifyGitResults_frame [of ?w2 w] by simp
  have v: "completion_check (Some s) (cost_notices w) ?w2 =
        Exit \<lparr>r_exit = Exit2 GitVerificationFailed,
              r_stdout = cost_notices w @ [MsgGitIncomplete ms fs],
              r_world = writeState (s\<lparr>phase := ''REVIEW'', complete := False\<rparr>) ?w2\<rparr>"
    using assms(2) chk tv gv by (simp add: completion_check_def Let_def)
  have "main w = \<lparr>r_exit = Exit2 GitVerificationFailed,
              r_stdout = cost_notices w @ [MsgGitIncomplete ms fs],
              r_world = writeState (s\<lparr>phase := ''REVIEW'', complete := False\<rparr>) ?w2\<rparr>"
    using assms(16,17) c l v by (simp add: main_def earlier_checks_pass)
  then show ?thesis
    using pr by (simp add: writeState_def)
qed

text \<open>A completed SHIP session with passing tests and no pull request.\<close>

theorem git_incomplete_blocks_witness:
  "main (quiet_world\<lparr>state_file := Good ship_state, test_results_file := Good passing_tests,
                     git_results_file := Good git_without_pr\<rparr>) =
     \<lparr>r_exit = Exit2 GitVerificationFailed,
      r_stdout = [MsgGitIncomplete [''PR not created''] []],
      r_world = quiet_world\<lparr>state_file := Good (ship_state\<lparr>phase := ''REVIEW'', complete := False\<rparr>),
                            test_results_file := Good passing_tests,
                            git_results_file := Good git_without_pr\<rparr>\<rparr>"
  using git_incomplete_blocks
    [of "quiet_world\<lparr>state_file := Good ship_state, test_results_file := Good passing_tests,
                     git_results_file := Good git_without_pr\<rparr>"
        ship_state passing_tests git_without_pr]
  by (simp add: hook_defs sample_defs category_ok_def)

text \<open>
  With the same test and git results, a recent validation error sends the session to
  FIX instead; \<^verbatim>\<open>allPassed\<close> unset fails test verification; an override marker lets
  the run go; and the cost check blocks first.
\<close>

theorem git_incomplete_counterexample:
  "main (quiet_world\<lparr>state_file := Good ship_state, test_results_file := Good passing_tests,
           git_results_file := Good git_without_pr,
           validation_state_file := Good (validation_with_error 99999000)\<rparr>) =
     \<lparr>r_exit = Exit2 ValidationErrorsPending,
      r_stdout = [MsgValidationErrors (v_errors (validation_with_error 99999000))],
      r_world = quiet_world\<lparr>state_file := Good (ship_state\<lparr>phase := ''FIX'', complete := False\<rparr>),
           test_results_file := Good passing_tests,
           git_results_file := Good git_without_pr,
           validation_state_file := Good (validation_with_error 99999000)\<rparr>\<rparr> \<and>
   r_exit (main (quiet_world\<lparr>state_file := Good ship_state,
           test_results_file := Good (passing_tests\<lparr>allPassed := False\<rparr>),
           git_results_file := Good git_without_pr\<rparr>)) = Exit2 TestVerificationFailed \<and>
   main (quiet_world\<lparr>state_file := Good ship_state, test_results_file := Good passing_tests,
           git_results_file := Good git_without_pr, force_complete_file := True\<rparr>) =
     \<lparr>r_exit = Exit0, r_stdout = [MsgForceComplete],
      r_world = quiet_world\<lparr>state_file := Good ship_state, test_results_file := Good passing_tests,
           git_results_file := Good git_without_pr\<rparr>\<rparr> \<and>
   r_exit (main (quiet_world\<lparr>state_file := Good ship_state, test_results_file := Good passing_tests,
           git_results_file := Good git_without_pr,
           rlm_context_file := Good \<lparr>sub_calls = Some 50, cost_estimate = None\<rparr>\<rparr>))
     = Exit2 CostLimitReached"
  by (simp add: hook_defs sample_defs)

section \<open>The backlog and escalation\<close>

text \<open>
  C7, as the code has it. When the earlier checks pass and a pending task remains, the
  current task is the first of the pending tasks in progress, in the order of the
  backlog file, or the first pending task in that order when none is in progress. If
  its failure count is below 3 (2, say) the run exits with code 2 naming it and leaves
  the world as it is; if the count is 3 or more the run writes the escalation marker
  and exits with code 2, and every later run finds the marker, exits with the pending
  escalation and leaves the marker as it was written.
\<close>

theorem backlog_failure_count:
  assumes "earlier_checks w = Continue (td, out, w1)"
    and "current_task (getPendingTasks w1 td) = Some cur"
    and "failure_file w1 = Good fl" and "map_of fl (task_id cur) = Some tf"
  shows "main w =
           (if f_count tf \<ge> 3
            then \<lparr>r_exit = Exit2 EscalationRequired,
                  r_stdout = out @ [MsgEscalationRequired (task_id cur) (f_count tf)
                                      (map fe_error (slice_last 3 (f_errors tf)))],
                  r_world = w1\<lparr>escalation_file := Good
                               \<lparr>taskId = task_id cur, failures = f_count tf,
                                esc_errors = slice_last 3 (f_errors tf),
                                esc_createdAt = now w1\<rparr>\<rparr>\<rparr>
            else \<lparr>r_exit = Exit2 (TasksRemaining (length (getPendingTasks w1 td))),
                  r_stdout = out @ [MsgTasksRemaining (length (getPendingTasks w1 td))
                                      (content cur) (task_id cur)],
                  r_world = w1\<rparr>) \<and>
         (if f_count tf \<ge> 3
          then fst (evaluations ts (r_world (main w)))
                 = replicate (length ts) (Exit2 EscalationPending) \<and>
               escalation_file (snd (evaluations ts (r_world (main w))))
                 = escalation_file (r_world (main w))
          else escalation_file (r_world (main w)) = escalation_file w) \<and>
         cur \<in> set (getPendingTasks w1 td) \<and>
         (if \<exists>t \<in> set (getPendingTasks w1 td). status t = ''in_progress''
          then cur = hd (filter (\<lambda>t. status t = ''in_progress'') (getPendingTasks w1 td))
          else cur = hd (getPendingTasks w1 td))"
proof -
  have sel: "cur \<in> set (getPendingTasks w1 td) \<and>
         (if \<exists>t \<in> set (getPendingTasks w1 td). status t = ''in_progress''
          then cur = hd (filter (\<lambda>t. status t = ''in_progress'') (getPendingTasks w1 td))
          else cur = hd (getPendingTasks w1 td))"
    using assms(2) by (rule current_task_selects)
  have frame: "no_markers w"
    "w1 = w\<lparr>rlm_costs_file := rlm_costs_file w1, state_file := state_file w1,
            state_mtime := state_mtime w1\<rparr>"
    using assms(1) earlier_checks_Continue by blast+
  have flags: "\<not> force_exit_file w1" "\<not> force_complete_file w1" "\<not> ralph_handoff_file w1"
    and esc: "escalation_file w1 = escalation_file w"
    using frame(1) world.select_convs
    by (subst frame(2), simp add: no_markers_def)+
  have m: "main w = backlog_check td out w1"
    using assms(1) by (simp add: main_def)
  show ?thesis
  proof (cases "f_count tf \<ge> 3")
    case True
    let ?e = "\<lparr>taskId = task_id cur, failures = f_count tf,
               esc_errors = slice_last 3 (f_errors tf), esc_createdAt = now w1\<rparr>"
    have r: "main w = \<lparr>r_exit = Exit2 EscalationRequired,
                  r_stdout = out @ [MsgEscalationRequired (task_id cur) (f_count tf)
                                      (map fe_error (slice_last 3 (f_errors tf)))],
                  r_world = w1\<lparr>escalation_file := Good ?e\<rparr>\<rparr>"
      using m assms(2-4) True
      by (simp add: backlog_check_def checkUserEscalation_def MAX_CONSECUTIVE_FAILURES_def Let_def)
    have "fst (evaluations ts (w1\<lparr>escalation_file := Good ?e\<rparr>))
            = replicate (length ts) (Exit2 EscalationPending) \<and>
          escalation_file (snd (evaluations ts (w1\<lparr>escalation_file := Good ?e\<rparr>))) = Good ?e"
      using flags evaluations_escalation_pending [of "w1\<lparr>escalation_file := Good ?e\<rparr>" ?e ts]
      by simp
    then show ?thesis
      using r True sel by simp
  next
    case False
    have r: "main w = \<lparr>r_exit = Exit2 (TasksRemaining (length (getPendingTasks w1 td))),
                  r_stdout = out @ [MsgTasksRemaining (length (getPendingTasks w1 td))
                                      (content cur) (task_id cur)],
                  r_world = w1\<rparr>"
      using m assms(2-4) False
      by (simp add: backlog_check_def checkUserEscalation_def MAX_CONSECUTIVE_FAILURES_def Let_def)
    then show ?thesis
      using False esc sel by simp
  qed
qed


text \<open>
  One pending task with two failures, then with three, then two more runs; and a backlog
  whose second and third tasks are in progress, the second with two failures.
\<close>

theorem backlog_failure_count_witness:
  "main (quiet_world\<lparr>persistent_tasks_file := Good \<lparr>staleThresholdHours = None,
                          tasks = [sample_task ''t1'' ''pending'' 99000000]\<rparr>,
                     failure_file := Good (failures_of ''t1'' 2)\<rparr>) =
     \<lparr>r_exit = Exit2 (TasksRemaining 1),
      r_stdout = [MsgTasksRemaining 1 ''work'' ''t1''],
      r_world = quiet_world\<lparr>persistent_tasks_file := Good \<lparr>staleThresholdHours = None,
                          tasks = [sample_task ''t1'' ''pending'' 99000000]\<rparr>,
                     failure_file := Good (failures_of ''t1'' 2)\<rparr>\<rparr> \<and>
   main (quiet_world\<lparr>persistent_tasks_file := Good \<lparr>staleThresholdHours = None,
                          tasks = [sample_task ''t1'' ''pending'' 99000000]\<rparr>,
                     failure_file := Good (failures_of ''t1'' 3)\<rparr>) =
     \<lparr>r_exit = Exit2 EscalationRequired,
      r_stdout = [MsgEscalationRequired ''t1'' 3 [''boom'']],
      r_world = quiet_world\<lparr>persistent_tasks_file := Good \<lparr>staleThresholdHours = None,
                          tasks = [sample_task ''t1'' ''pending'' 99000000]\<rparr>,
                     failure_file := Good (failures_of ''t1'' 3),
                     escalation_file := Good \<lparr>taskId = ''t1'', failures = 3,
                        esc_errors = [\<lparr>fe_error = ''boom'', fe_timestamp = 99000000\<rparr>],
                        esc_createdAt = 100000000\<rparr>\<rparr>\<rparr> \<and>
   evaluations [100000001, 100000002]
     (r_world (main (quiet_world\<lparr>persistent_tasks_file := Good \<lparr>staleThresholdHours = None,
                          tasks = [sample_task ''t1'' ''pending'' 99000000]\<rparr>,
                     failure_file := Good (failures_of ''t1'' 3)\<rparr>))) =
     ([Exit2 EscalationPending, Exit2 EscalationPending],
      quiet_world\<lparr>now := 100000002,
                     persistent_tasks_file := Good \<lparr>staleThresholdHours = None,
                          tasks = [sample_task ''t1'' ''pending'' 99000000]\<rparr>,
                     failure_file := Good (failures_of ''t1'' 3),
                     escalation_file := Good \<lparr>taskId = ''t1'', failures = 3,
                        esc_errors = [\<lparr>fe_error = ''boom'', fe_timestamp = 99000000\<rparr>],
                        esc_createdAt = 100000000\<rparr>\<rparr>) \<and>
   main (quiet_world\<lparr>persistent_tasks_file := Good \<lparr>staleThresholdHours = None,
                          tasks = [sample_task ''t1'' ''pending'' 99000000,
                                   sample_task ''t2'' ''in_progress'' 99500000,
                                   sample_task ''t3'' ''in_progress'' 99600000]\<rparr>,
                     failure_file := Good (failures_of ''t2'' 2)\<rparr>) =
     \<lparr>r_exit = Exit2 (TasksRemaining 3),
      r_stdout = [MsgTasksRemaining 3 ''work'' ''t2''],
      r_world = quiet_world\<lparr>persistent_tasks_file := Good \<lparr>staleThresholdHours = None,
                          tasks = [sample_task ''t1'' ''pending'' 99000000,
                                   sample_task ''t2'' ''in_progress'' 99500000,
                                   sample_task ''t3'' ''in_progress'' 99600000]\<rparr>,
                     failure_file := Good (failures_of ''t2'' 2)\<rparr>\<rparr>"
  using
    backlog_failure_count
      [of "quiet_world\<lparr>persistent_tasks_file := Good \<lparr>staleThresholdHours = None,
                          tasks = [sample_task ''t1'' ''pending'' 99000000,
                                   sample_task ''t2'' ''in_progress'' 99500000,
                                   sample_task ''t3'' ''in_progress'' 99600000]\<rparr>,
                     failure_file := Good (failures_of ''t2'' 2)\<rparr>"
          "Some \<lparr>staleThresholdHours = None,
                 tasks = [sample_task ''t1'' ''pending'' 99000000,
                          sample_task ''t2'' ''in_progress'' 99500000,
                          sample_task ''t3'' ''in_progress'' 99600000]\<rparr>"
          "[]"
          "quiet_world\<lparr>persistent_tasks_file := Good \<lparr>staleThresholdHours = None,
                          tasks = [sample_task ''t1'' ''pending'' 99000000,
                                   sample_task ''t2'' ''in_progress'' 99500000,
                                   sample_task ''t3'' ''in_progress'' 99600000]\<rparr>,
                     failure_file := Good (failures_of ''t2'' 2)\<rparr>"
          "sample_task ''t2'' ''in_progress'' 99500000" "failures_of ''t2'' 2"
          "\<lparr>f_count = 2, f_errors = [\<lparr>fe_error = ''boom'', fe_timestamp = 99000000\<rparr>]\<rparr>"
          "[]"]
    backlog_failure_count
      [of "quiet_world\<lparr>persistent_tasks_file := Good \<lparr>staleThresholdHours = None,
                          tasks = [sample_task ''t1'' ''pending'' 99000000]\<rparr>,
                     failure_file := Good (failures_of ''t1'' 2)\<rparr>"
          "Some \<lparr>staleThresholdHours = None, tasks = [sample_task ''t1'' ''pending'' 99000000]\<rparr>"
          "[]"
          "quiet_world\<lparr>persistent_tasks_file := Good \<lparr>staleThresholdHours = None,
                          tasks = [sample_task ''t1'' ''pending'' 99000000]\<rparr>,
                     failure_file := Good (failures_of ''t1'' 2)\<rparr>"
          "sample_task ''t1'' ''pending'' 99000000" "failures_of ''t1'' 2"
          "\<lparr>f_count = 2, f_errors = [\<lparr>fe_error = ''boom'', fe_timestamp = 99000000\<rparr>]\<rparr>"
          "[100000001, 100000002]"]
    backlog_failure_count
      [of "quiet_world\<lparr>persistent_tasks_file := Good \<lparr>staleThresholdHours = None,
                          tasks = [sample_task ''t1'' ''pending'' 99000000]\<rparr>,
                     failure_file := Good (failures_of ''t1'' 3)\<rparr>"
          "Some \<lparr>staleThresholdHours = None, tasks = [sample_task ''t1'' ''pending'' 99000000]\<rparr>"
          "[]"
          "quiet_world\<lparr>persistent_tasks_file := Good \<lparr>staleThresholdHours = None,
                          tasks = [sample_task ''t1'' ''pending'' 99000000]\<rparr>,
                     failure_file := Good (failures_of ''t1'' 3)\<rparr>"
          "sample_task ''t1'' ''pending'' 99000000" "failures_of ''t1'' 3"
          "\<lparr>f_count = 3, f_errors = [\<lparr>fe_error = ''boom'', fe_timestamp = 99000000\<rparr>]\<rparr>"
          "[100000001, 100000002]"]
  by (simp add: hook_defs sample_defs)

text \<open>
  The earliest pending task is not the one selected when a later one is in progress:
  here the first task has failed three times, and the run names the second and does
  not escalate.
\<close>

theorem backlog_failure_count_counterexample:
  "getPendingTasks quiet_world
     (Some \<lparr>staleThresholdHours = None,
            tasks = [sample_task ''t1'' ''pending'' 99000000,
                     sample_task ''t2'' ''in_progress'' 99500000]\<rparr>) =
     [sample_task ''t1'' ''pending'' 99000000, sample_task ''t2'' ''in_progress'' 99500000] \<and>
   main (quiet_world\<lparr>persistent_tasks_file := Good \<lparr>staleThresholdHours = None,
                          tasks = [sample_task ''t1'' ''pending'' 99000000,
                                   sample_task ''t2'' ''in_progress'' 99500000]\<rparr>,
                     failure_file := Good (failures_of ''t1'' 3)\<rparr>) =
     \<lparr>r_exit = Exit2 (TasksRemaining 2),
      r_stdout = [MsgTasksRemaining 2 ''work'' ''t2''],
      r_world = quiet_world\<lparr>persistent_tasks_file := Good \<lparr>staleThresholdHours = None,
                          tasks = [sample_task ''t1'' ''pending'' 99000000,
                                   sample_task ''t2'' ''in_progress'' 99500000]\<rparr>,
                     failure_file := Good (failures_of ''t1'' 3)\<rparr>\<rparr>"
  by (simp add: hook_defs sample_defs)

section \<open>The cost guard\<close>

text \<open>
  C8, as the code has it. In a run that gets past the markers, with a readable cost
  record and a cumulative file that is absent or readable, the burst's sub-call count is
  added to the running total and appended to the history, which keeps its last 10
  entries; the sum is exact while the total, the count and their sum are at most
  \<open>2 ^ 53\<close> in size. Only the burst is judged: 50 or more exits with code 2 and the
  cost-limit text; 30 to 49 prints the warning and the cost check does not block; below
  30 it does not block either.
\<close>

theorem cost_guard_accounting:
  assumes "no_markers w" and "rlm_context_file w = Good ctx" and "rlm_costs_file w \<noteq> Malformed"
    and "\<bar>previous_total w\<bar> \<le> 2 ^ 53" and "\<bar>js_or (sub_calls ctx) 0\<bar> \<le> 2 ^ 53"
    and "\<bar>previous_total w + js_or (sub_calls ctx) 0\<bar> \<le> 2 ^ 53"
  shows "rlm_costs_file (r_world (main w)) =
           Good \<lparr>total_sub_calls = Some (previous_total w + js_or (sub_calls ctx) 0),
                 last_updated = Some (now w),
                 sessions = Some (slice_last 10 (previous_sessions w @ [burst_session w ctx]))\<rparr> \<and>
         length (slice_last 10 (previous_sessions w @ [burst_session w ctx])) \<le> 10 \<and>
         (if js_or (sub_calls ctx) 0 \<ge> 50
          then r_exit (main w) = Exit2 CostLimitReached \<and>
               r_stdout (main w) = [MsgCostLimit (js_or (sub_calls ctx) 0)]
          else if js_or (sub_calls ctx) 0 \<ge> 30
          then r_exit (main w) \<noteq> Exit2 CostLimitReached \<and>
               MsgCostWarning (js_or (sub_calls ctx) 0) \<in> set (r_stdout (main w))
          else r_exit (main w) \<noteq> Exit2 CostLimitReached)"
proof -
  let ?n = "js_or (sub_calls ctx) 0"
  let ?c = "Good \<lparr>total_sub_calls = Some (previous_total w + ?n),
                 last_updated = Some (now w),
                 sessions = Some (slice_last 10 (previous_sessions w @ [burst_session w ctx]))\<rparr>"
  have exact: "to_double (previous_total w + ?n) = Some (previous_total w + ?n)"
    using assms(6) by (rule to_double_exact)
  have r: "checkRlmCosts w =
     (if ?n \<ge> 50 then RlmBlocked (MsgCostLimit ?n)
      else if ?n \<ge> 30 then RlmWarning (MsgCostWarning ?n) else RlmOk,
      w\<lparr>rlm_costs_file := ?c\<rparr>)"
    using checkRlmCosts_readable [OF assms(2,3)] exact by simp
  have len: "length (slice_last 10 (previous_sessions w @ [burst_session w ctx])) \<le> 10"
    by (rule length_slice_last)
  show ?thesis
  proof (cases "?n \<ge> 50")
    case True
    have "main w = \<lparr>r_exit = Exit2 CostLimitReached, r_stdout = [MsgCostLimit ?n],
                    r_world = w\<lparr>rlm_costs_file := ?c\<rparr>\<rparr>"
      using assms(1) r True
      by (simp add: main_def earlier_checks_def marker_checks_pass cost_check_def)
    then show ?thesis
      using True len by simp
  next
    case False
    have nb: "\<not> cost_blocks w"
      using r False by (simp add: cost_blocks_def)
    have a: "r_exit (main w) \<noteq> Exit2 CostLimitReached \<and>
         set (cost_notices w) \<subseteq> set (r_stdout (main w)) \<and>
         rlm_costs_file (r_world (main w)) = rlm_costs_file (snd (checkRlmCosts w))"
      using assms(1) nb by (rule main_after_cost)
    have n: "cost_notices w = (if ?n \<ge> 30 then [MsgCostWarning ?n] else [])"
      using r False by (simp add: cost_notices_def)
    show ?thesis
      using a n r False len by auto
  qed
qed

text \<open>A burst of 50 on a running total of 12, and a burst of 35 with no cumulative file.\<close>

theorem cost_guard_accounting_witness:
  "main (quiet_world\<lparr>rlm_context_file := Good \<lparr>sub_calls = Some 50, cost_estimate = None\<rparr>,
           rlm_costs_file := Good \<lparr>total_sub_calls = Some 12, last_updated = None,
                                   sessions = Some []\<rparr>\<rparr>) =
     \<lparr>r_exit = Exit2 CostLimitReached, r_stdout = [MsgCostLimit 50],
      r_world = quiet_world\<lparr>rlm_context_file := Good \<lparr>sub_calls = Some 50, cost_estimate = None\<rparr>,
           rlm_costs_file := Good \<lparr>total_sub_calls = Some 62, last_updated = Some 100000000,
              sessions = Some [\<lparr>s_timestamp = 100000000, s_sub_calls = 50,
                                s_cost_estimate = ''unknown''\<rparr>]\<rparr>\<rparr>\<rparr> \<and>
   main (quiet_world\<lparr>rlm_context_file := Good \<lparr>sub_calls = Some 35, cost_estimate = None\<rparr>\<rparr>) =
     \<lparr>r_exit = Exit0, r_stdout = [MsgCostWarning 35, MsgExitAllowed],
      r_world = quiet_world\<lparr>rlm_context_file := Good \<lparr>sub_calls = Some 35, cost_estimate = None\<rparr>,
           rlm_costs_file := Good \<lparr>total_sub_calls = Some 35, last_updated = Some 100000000,
              sessions = Some [\<lparr>s_timestamp = 100000000, s_sub_calls = 35,
                                s_cost_estimate = ''unknown''\<rparr>]\<rparr>\<rparr>\<rparr>"
  using
    cost_guard_accounting
      [of "quiet_world\<lparr>rlm_context_file := Good \<lparr>sub_calls = Some 50, cost_estimate = None\<rparr>,
           rlm_costs_file := Good \<lparr>total_sub_calls = Some 12, last_updated = None,
                                   sessions = Some []\<rparr>\<rparr>"
          "\<lparr>sub_calls = Some 50, cost_estimate = None\<rparr>"]
    cost_guard_accounting
      [of "quiet_world\<lparr>rlm_context_file := Good \<lparr>sub_calls = Some 35, cost_estimate = None\<rparr>\<rparr>"
          "\<lparr>sub_calls = Some 35, cost_estimate = None\<rparr>"]
  by (simp add: hook_defs sample_defs)

text \<open>
  With an unreadable cumulative file a burst of 50 neither blocks nor is recorded; with
  the force-exit marker the cost record is not looked at; and on a running total of
  \<open>2 ^ 53\<close> a burst of 1 leaves the total where it is.
\<close>

theorem cost_guard_counterexample:
  "main (quiet_world\<lparr>rlm_context_file := Good \<lparr>sub_calls = Some 50, cost_estimate = None\<rparr>,
           rlm_costs_file := Malformed\<rparr>) =
     \<lparr>r_exit = Exit0, r_stdout = [MsgExitAllowed],
      r_world = quiet_world\<lparr>rlm_context_file := Good \<lparr>sub_calls = Some 50, cost_estimate = None\<rparr>,
           rlm_costs_file := Malformed\<rparr>\<rparr> \<and>
   main (quiet_world\<lparr>rlm_context_file := Good \<lparr>sub_calls = Some 50, cost_estimate = None\<rparr>,
           force_exit_file := True\<rparr>) =
     \<lparr>r_exit = Exit0, r_stdout = [MsgForceExit],
      r_world = quiet_world\<lparr>rlm_context_file :=
                  Good \<lparr>sub_calls = Some 50, cost_estimate = None\<rparr>\<rparr>\<rparr> \<and>
   rlm_costs_file (r_world (main
     (quiet_world\<lparr>rlm_context_file := Good \<lparr>sub_calls = Some 1, cost_estimate = None\<rparr>,
           rlm_costs_file := Good \<lparr>total_sub_calls = Some 9007199254740992,
                                   last_updated = None, sessions = Some []\<rparr>\<rparr>))) =
     Good \<lparr>total_sub_calls = Some 9007199254740992, last_updated = Some 100000000,
           sessions = Some [\<lparr>s_timestamp = 100000000, s_sub_calls = 1,
                             s_cost_estimate = ''unknown''\<rparr>]\<rparr>"
  by (simp add: hook_defs sample_defs)

section \<open>A falsy iteration limit\<close>

text \<open>
  C10, as the code has it. If \<^verbatim>\<open>maxIterations\<close> is absent, zero or otherwise falsy the
  limit check never blocks. Take a session that is not complete, in a phase other than
  COMPLETE and SHIP, with no marker and the cost check not blocking, whose iteration is
  at least \<open>- 2 ^ 53\<close>. A run at most eight hours after the state file was written, on
  an iteration below \<open>2 ^ 53\<close>, increments the persisted iteration by one and does not
  report the iteration limit; it exits with code 2 and the phase prompt when the phase
  is PLAN, BUILD, REVIEW or FIX, and goes on to the backlog check when
  \<^verbatim>\<open>getPhasePrompt\<close> returns \<^verbatim>\<open>null\<close>. In phase PLAN, BUILD, REVIEW or FIX, \<open>n\<close> runs that
  each come at most eight hours after the one before all exit with the phase prompt and
  leave the iteration at the first one plus \<open>n\<close>, as long as that is at most \<open>2 ^ 53\<close>.
\<close>

theorem iteration_unbounded:
  assumes "state_file w = Good s" and "\<not> complete s"
    and "phase s \<noteq> ''COMPLETE''" and "phase s \<noteq> ''SHIP''"
    and "maxIterations s \<in> {None, Some 0}"
    and "no_markers w" and "\<not> cost_blocks w"
    and "- (2 ^ 53) \<le> js_or (iteration s) 0"
  shows "checkIterationLimit (Some s) = None \<and>
         (now w - state_mtime w \<le> STALE_THRESHOLD_MS \<and> js_or (iteration s) 0 < 2 ^ 53 \<longrightarrow>
            r_exit (main w) \<noteq> Exit2 IterationLimitReached \<and>
            state_file (r_world (main w)) =
              Good (s\<lparr>iteration := Some (js_or (iteration s) 0 + 1),
                      lastActivity := Some (now w)\<rparr>) \<and>
            (phase s \<in> set [''PLAN'', ''BUILD'', ''REVIEW'', ''FIX''] \<longrightarrow>
               r_exit (main w) = Exit2 (DeepLoopPhase (phase s))) \<and>
            (getPhasePrompt s = None \<longrightarrow>
               main w =
                 backlog_check (readPersistentTasks w) (cost_notices w)
                   ((snd (checkRlmCosts w))
                      \<lparr>state_file := Good (s\<lparr>iteration := Some (js_or (iteration s) 0 + 1),
                                             lastActivity := Some (now w)\<rparr>),
                       state_mtime := now w\<rparr>))) \<and>
         (phase s \<in> set [''PLAN'', ''BUILD'', ''REVIEW'', ''FIX''] \<and>
          paced (state_mtime w) ts \<and> js_or (iteration s) 0 + int (length ts) \<le> 2 ^ 53 \<longrightarrow>
            fst (evaluations ts w) = replicate (length ts) (Exit2 (DeepLoopPhase (phase s))) \<and>
            (\<exists>s'. state_file (snd (evaluations ts w)) = Good s' \<and>
                  js_or (iteration s') 0 = js_or (iteration s) 0 + int (length ts)))"
proof -
  let ?i = "js_or (iteration s) 0"
  let ?s = "s\<lparr>iteration := Some (?i + 1), lastActivity := Some (now w)\<rparr>"
  let ?w' = "(snd (checkRlmCosts w))\<lparr>state_file := Good ?s, state_mtime := now w\<rparr>"
  have lim: "checkIterationLimit (Some s) = None"
    using assms(5) by (rule falsy_limit_never_blocks)
  have one: "r_exit (main w) \<noteq> Exit2 IterationLimitReached \<and>
            state_file (r_world (main w)) = Good ?s \<and>
            (phase s \<in> set [''PLAN'', ''BUILD'', ''REVIEW'', ''FIX''] \<longrightarrow>
               r_exit (main w) = Exit2 (DeepLoopPhase (phase s))) \<and>
            (getPhasePrompt s = None \<longrightarrow>
               main w = backlog_check (readPersistentTasks w) (cost_notices w) ?w')"
    if fresh: "now w - state_mtime w \<le> STALE_THRESHOLD_MS" and below: "?i < 2 ^ 53"
  proof -
    have "\<bar>?i + 1\<bar> \<le> 2 ^ 53"
      using assms(8) below by simp
    then have exact: "to_double (?i + 1) = Some (?i + 1)"
      by (rule to_double_exact)
    have m: "main w =
       (case getPhasePrompt ?s of
          Some p \<Rightarrow> \<lparr>r_exit = Exit2 (DeepLoopPhase (phase s)),
                     r_stdout = cost_notices w @ [p], r_world = ?w'\<rparr>
        | None \<Rightarrow> backlog_check (readPersistentTasks w) (cost_notices w) ?w')"
      using increment_run [OF assms(1-7) fresh] by (simp add: exact cong: option.case_cong)
    have same: "getPhasePrompt ?s = None \<longleftrightarrow> getPhasePrompt s = None"
      by (rule getPhasePrompt_phase)
    have named: "getPhasePrompt s \<noteq> None"
      if "phase s \<in> set [''PLAN'', ''BUILD'', ''REVIEW'', ''FIX'']"
      using that by (auto simp add: getPhasePrompt_def)
    show ?thesis
    proof (cases "getPhasePrompt ?s")
      case None
      have b: "r_exit (backlog_check (readPersistentTasks w) (cost_notices w) ?w')
                 \<noteq> Exit2 IterationLimitReached \<and>
               state_file (r_world (backlog_check (readPersistentTasks w) (cost_notices w) ?w'))
                 = state_file ?w'"
        by (rule backlog_check_exits)
      have "main w = backlog_check (readPersistentTasks w) (cost_notices w) ?w'"
        using m None by simp
      then show ?thesis
        using b None same named by auto
    next
      case (Some p)
      have "main w = \<lparr>r_exit = Exit2 (DeepLoopPhase (phase s)),
                     r_stdout = cost_notices w @ [p], r_world = ?w'\<rparr>"
        using m Some by simp
      then show ?thesis
        using Some same by auto
    qed
  qed
  have many: "fst (evaluations ts w) = replicate (length ts) (Exit2 (DeepLoopPhase (phase s))) \<and>
            (\<exists>s'. state_file (snd (evaluations ts w)) = Good s' \<and>
                  js_or (iteration s') 0 = ?i + int (length ts))"
    if ph: "phase s \<in> set [''PLAN'', ''BUILD'', ''REVIEW'', ''FIX'']"
      and p: "paced (state_mtime w) ts" and hi: "?i + int (length ts) \<le> 2 ^ 53"
  proof -
    have "loop_running w s"
      using assms(1,2,6,7) ph by (simp add: loop_running_def)
    then show ?thesis
      using assms(5) p assms(8) hi by (rule paced_runs)
  qed
  show ?thesis
    using lim one many by blast
qed

text \<open>
  Three runs of a BUILD session at iteration 10 without a limit, and one run of a
  session in phase RLM_EXPLORE, which has no prompt.
\<close>

theorem iteration_unbounded_witness:
  "evaluations [100000000, 110000000, 120000000]
     (quiet_world\<lparr>state_file := Good (build_state 10 None)\<rparr>) =
     ([Exit2 (DeepLoopPhase ''BUILD''), Exit2 (DeepLoopPhase ''BUILD''),
       Exit2 (DeepLoopPhase ''BUILD'')],
      quiet_world\<lparr>now := 120000000,
         state_file := Good ((build_state 13 None)\<lparr>lastActivity := Some 120000000\<rparr>),
         state_mtime := 120000000\<rparr>) \<and>
   main (quiet_world\<lparr>state_file := Good ((build_state 10 (Some 0))\<lparr>phase := ''RLM_EXPLORE''\<rparr>),
                     persistent_tasks_file := Good \<lparr>staleThresholdHours = None,
                        tasks = [sample_task ''t1'' ''pending'' 99000000]\<rparr>\<rparr>) =
     \<lparr>r_exit = Exit2 (TasksRemaining 1), r_stdout = [MsgTasksRemaining 1 ''work'' ''t1''],
      r_world = quiet_world\<lparr>state_file :=
                    Good ((build_state 11 (Some 0))\<lparr>phase := ''RLM_EXPLORE''\<rparr>),
                  persistent_tasks_file := Good \<lparr>staleThresholdHours = None,
                        tasks = [sample_task ''t1'' ''pending'' 99000000]\<rparr>\<rparr>\<rparr>"
  using
    iteration_unbounded
      [of "quiet_world\<lparr>state_file := Good (build_state 10 None)\<rparr>" "build_state 10 None"
          "[100000000, 110000000, 120000000]"]
    iteration_unbounded
      [of "quiet_world\<lparr>state_file := Good ((build_state 10 (Some 0))\<lparr>phase := ''RLM_EXPLORE''\<rparr>),
                     persistent_tasks_file := Good \<lparr>staleThresholdHours = None,
                        tasks = [sample_task ''t1'' ''pending'' 99000000]\<rparr>\<rparr>"
          "(build_state 10 (Some 0))\<lparr>phase := ''RLM_EXPLORE''\<rparr>" "[]"]
  by (simp add: hook_defs sample_defs Let_def)

text \<open>
  A phase without a prompt (RLM_EXPLORE) has its iteration incremented and the run
  exits with code 0; with an escalation marker the run blocks before the loop and the
  iteration stays; and from \<open>2 ^ 53\<close> the increment no longer moves the iteration.
\<close>

theorem iteration_unbounded_counterexample:
  "main (quiet_world\<lparr>state_file := Good ((build_state 10 None)\<lparr>phase := ''RLM_EXPLORE''\<rparr>)\<rparr>) =
     \<lparr>r_exit = Exit0, r_stdout = [MsgExitAllowed],
      r_world = quiet_world\<lparr>state_file :=
                  Good ((build_state 11 None)\<lparr>phase := ''RLM_EXPLORE''\<rparr>)\<rparr>\<rparr> \<and>
   r_exit (main (quiet_world\<lparr>state_file := Good (build_state 10 None),
                   escalation_file := Good \<lparr>taskId = ''t1'', failures = 3, esc_errors = [],
                                            esc_createdAt = 0\<rparr>\<rparr>)) = Exit2 EscalationPending \<and>
   state_file (r_world (main (quiet_world\<lparr>state_file := Good (build_state 10 None),
                   escalation_file := Good \<lparr>taskId = ''t1'', failures = 3, esc_errors = [],
                                            esc_createdAt = 0\<rparr>\<rparr>))) = Good (build_state 10 None) \<and>
   main (quiet_world\<lparr>state_file := Good (build_state 9007199254740992 None)\<rparr>) =
     \<lparr>r_exit = Exit2 (DeepLoopPhase ''BUILD''),
      r_stdout = [MsgPhasePrompt ''BUILD'' (Some 9007199254740992) None],
      r_world = quiet_world\<lparr>state_file := Good (build_state 9007199254740992 None)\<rparr>\<rparr>"
  by (simp add: hook_defs sample_defs Let_def)

section \<open>Unreadable records\<close>

text \<open>
  C2, as the code has it. For each record the run reads, an unreadable record gives the
  same exit as a missing one, because its reader returns the default it returns for a
  missing record: no state, tests not valid, git verification skipped, no validation
  errors, no backlog, no escalation, cost check passed, lock acquired and release
  ignored. Only the default for the test results blocks.
\<close>

theorem unreadable_as_missing:
  "r_exit (main (w\<lparr>state_file := Malformed\<rparr>)) = r_exit (main (w\<lparr>state_file := Missing\<rparr>)) \<and>
   r_exit (main (w\<lparr>test_results_file := Malformed\<rparr>))
     = r_exit (main (w\<lparr>test_results_file := Missing\<rparr>)) \<and>
   r_exit (main (w\<lparr>git_results_file := Malformed\<rparr>))
     = r_exit (main (w\<lparr>git_results_file := Missing\<rparr>)) \<and>
   r_exit (main (w\<lparr>validation_state_file := Malformed\<rparr>))
     = r_exit (main (w\<lparr>validation_state_file := Missing\<rparr>)) \<and>
   r_exit (main (w\<lparr>persistent_tasks_file := Malformed\<rparr>))
     = r_exit (main (w\<lparr>persistent_tasks_file := Missing\<rparr>)) \<and>
   r_exit (main (w\<lparr>failure_file := Malformed\<rparr>))
     = r_exit (main (w\<lparr>failure_file := Missing\<rparr>)) \<and>
   r_exit (main (w\<lparr>rlm_context_file := Malformed\<rparr>))
     = r_exit (main (w\<lparr>rlm_context_file := Missing\<rparr>)) \<and>
   r_exit (main (w\<lparr>lock_file := Malformed\<rparr>)) = r_exit (main (w\<lparr>lock_file := Missing\<rparr>)) \<and>
   readState (w\<lparr>state_file := Malformed\<rparr>) = None \<and>
   valid (verifyTestResults (w\<lparr>test_results_file := Malformed\<rparr>)) = False \<and>
   verifyGitResults (w\<lparr>git_results_file := Malformed\<rparr>)
     = \<lparr>valid = True, skip = True, missing = [], failed = []\<rparr> \<and>
   checkValidationErrors (w\<lparr>validation_state_file := Malformed\<rparr>) = None \<and>
   readPersistentTasks (w\<lparr>persistent_tasks_file := Malformed\<rparr>) = None \<and>
   checkUserEscalation tid (w\<lparr>failure_file := Malformed\<rparr>)
     = (None, w\<lparr>failure_file := Malformed\<rparr>) \<and>
   checkRlmCosts (w\<lparr>rlm_context_file := Malformed\<rparr>)
     = (RlmOk, w\<lparr>rlm_context_file := Malformed\<rparr>) \<and>
   acquireLock (w\<lparr>lock_file := Malformed\<rparr>) = (Acquired, w\<lparr>lock_file := Malformed\<rparr>) \<and>
   releaseLock (w\<lparr>lock_file := Malformed\<rparr>) = w\<lparr>lock_file := Malformed\<rparr>"
proof -
  have "r_exit (main (w\<lparr>state_file := Malformed\<rparr>)) = r_exit (main (w\<lparr>state_file := Missing\<rparr>))"
    using main_unread [OF unread_state, of "w\<lparr>state_file := Missing\<rparr>"] by simp
  moreover have "r_exit (main (w\<lparr>test_results_file := Malformed\<rparr>))
     = r_exit (main (w\<lparr>test_results_file := Missing\<rparr>))"
    using main_unread [OF unread_tests, of "w\<lparr>test_results_file := Missing\<rparr>"] by simp
  moreover have "r_exit (main (w\<lparr>git_results_file := Malformed\<rparr>))
     = r_exit (main (w\<lparr>git_results_file := Missing\<rparr>))"
    using main_unread [OF unread_git, of "w\<lparr>git_results_file := Missing\<rparr>"] by simp
  moreover have "r_exit (main (w\<lparr>validation_state_file := Malformed\<rparr>))
     = r_exit (main (w\<lparr>validation_state_file := Missing\<rparr>))"
    using main_unread [OF unread_validation, of "w\<lparr>validation_state_file := Missing\<rparr>"] by simp
  moreover have "r_exit (main (w\<lparr>persistent_tasks_file := Malformed\<rparr>))
     = r_exit (main (w\<lparr>persistent_tasks_file := Missing\<rparr>))"
    using main_unread [OF unread_tasks, of "w\<lparr>persistent_tasks_file := Missing\<rparr>"] by simp
  moreover have "r_exit (main (w\<lparr>failure_file := Malformed\<rparr>))
     = r_exit (main (w\<lparr>failure_file := Missing\<rparr>))"
    using main_unread [OF unread_failures, of "w\<lparr>failure_file := Missing\<rparr>"] by simp
  moreover have "r_exit (main (w\<lparr>rlm_context_file := Malformed\<rparr>))
     = r_exit (main (w\<lparr>rlm_context_file := Missing\<rparr>))"
    using main_unread [OF unread_context, of "w\<lparr>rlm_context_file := Missing\<rparr>"] by simp
  moreover have "r_exit (main (w\<lparr>lock_file := Malformed\<rparr>))
     = r_exit (main (w\<lparr>lock_file := Missing\<rparr>))"
    using main_unread [OF unread_lock, of "w\<lparr>lock_file := Missing\<rparr>"] by simp
  moreover have "readState (w\<lparr>state_file := Malformed\<rparr>) = None"
    "valid (verifyTestResults (w\<lparr>test_results_file := Malformed\<rparr>)) = False"
    "verifyGitResults (w\<lparr>git_results_file := Malformed\<rparr>)
       = \<lparr>valid = True, skip = True, missing = [], failed = []\<rparr>"
    "checkValidationErrors (w\<lparr>validation_state_file := Malformed\<rparr>) = None"
    "readPersistentTasks (w\<lparr>persistent_tasks_file := Malformed\<rparr>) = None"
    "checkUserEscalation tid (w\<lparr>failure_file := Malformed\<rparr>)
       = (None, w\<lparr>failure_file := Malformed\<rparr>)"
    "checkRlmCosts (w\<lparr>rlm_context_file := Malformed\<rparr>)
       = (RlmOk, w\<lparr>rlm_context_file := Malformed\<rparr>)"
    "acquireLock (w\<lparr>lock_file := Malformed\<rparr>) = (Acquired, w\<lparr>lock_file := Malformed\<rparr>)"
    "releaseLock (w\<lparr>lock_file := Malformed\<rparr>) = w\<lparr>lock_file := Malformed\<rparr>"
    by (simp_all add: readState_def verifyTestResults_def verifyGitResults_def
        checkValidationErrors_def readPersistentTasks_def checkUserEscalation_def
        checkRlmCosts_def acquireLock_def releaseLock_def)
  ultimately show ?thesis by simp
qed

text \<open>
  A read failure can turn a block into an exit with code 0: unreadable git results
  skip the pull-request check that readable ones fail, an unreadable state file ends a
  running loop, an unreadable cost record passes a burst of 50, and so does an
  unreadable cumulative file, which a missing one does not.
\<close>

theorem unreadable_counterexample:
  "exit_code (r_exit (main (quiet_world\<lparr>state_file := Good ship_state,
      test_results_file := Good passing_tests, git_results_file := Good git_without_pr\<rparr>))) = 2 \<and>
   exit_code (r_exit (main (quiet_world\<lparr>state_file := Good ship_state,
      test_results_file := Good passing_tests, git_results_file := Malformed\<rparr>))) = 0 \<and>
   exit_code (r_exit (main (quiet_world\<lparr>state_file := Good (build_state 3 (Some 10))\<rparr>))) = 2 \<and>
   exit_code (r_exit (main (quiet_world\<lparr>state_file := Malformed\<rparr>))) = 0 \<and>
   exit_code (r_exit (main (quiet_world\<lparr>rlm_context_file :=
      Good \<lparr>sub_calls = Some 50, cost_estimate = None\<rparr>\<rparr>))) = 2 \<and>
   exit_code (r_exit (main (quiet_world\<lparr>rlm_context_file := Malformed\<rparr>))) = 0 \<and>
   exit_code (r_exit (main (quiet_world\<lparr>rlm_context_file :=
      Good \<lparr>sub_calls = Some 50, cost_estimate = None\<rparr>, rlm_costs_file := Malformed\<rparr>))) = 0"
  by (simp add: hook_defs sample_defs Let_def)

end
